theory Spec2Isabelle
  imports Complex_Main
begin

section \<open>Values, errors and the resource models\<close>

text \<open>
  The sources are Python 2 (\<^verbatim>\<open>filter\<close> returns a list that is indexed and tested
  for emptiness). A Python value that reaches the code verified here is either
  \<^verbatim>\<open>None\<close> or a string: names, label values, field values of a volume source and
  the volume type are of that shape.
\<close>

datatype pyval = PyNone | PyStr string

text \<open>\<^verbatim>\<open>'{}'.format(v)\<close>\<close>

fun py_format :: "pyval \<Rightarrow> string" where
  "py_format PyNone = ''None''"
| "py_format (PyStr s) = s"

text \<open>
  The exceptions the two classes raise or let through. The specification's error
  kinds name them: \<open>InvalidArgument\<close> is \<^verbatim>\<open>SyntaxError\<close>, \<open>UnsupportedForVariant\<close> is
  \<^verbatim>\<open>NotImplementedError\<close>, \<open>TimedOut\<close> is \<^verbatim>\<open>TimedOutException\<close>; an error of the
  transport carries its HTTP-like status code.
\<close>

datatype error =
    SyntaxError string
  | NotImplementedError
  | TimedOutException string
  | TypeError
  | AttributeError
  | KeyError string
  | TransportError nat

text \<open>
  An object of a volume-source class is its attributes: \<^verbatim>\<open>hasattr(o, f)\<close> is
  \<open>f \<in> dom o\<close>, \<^verbatim>\<open>o.f\<close> is \<open>o f\<close> and \<^verbatim>\<open>o.f = v\<close> is \<open>o(f \<mapsto> v)\<close>.
\<close>

type_synonym source_obj = "string \<rightharpoonup> pyval"

record object_meta =
  meta_name :: pyval
  meta_labels :: "string \<rightharpoonup> pyval"
  meta_annotations :: "string \<rightharpoonup> pyval"

text \<open>
  The spec section of a persistent volume. \<open>spec_slots\<close> holds the attributes that
  \<^verbatim>\<open>setattr(self.model.spec, t, ...)\<close> writes and \<^verbatim>\<open>getattr(self.model.spec, t, None)\<close>
  reads, one per volume type; a slot that is absent or \<^verbatim>\<open>None\<close> is \<open>None\<close> here.
  The names of the volume types are not names of the other attributes of the spec.
\<close>

record pv_spec =
  spec_slots :: "string \<rightharpoonup> source_obj"
  spec_access_modes :: "string list"
  spec_capacity :: "string \<rightharpoonup> string"

record pv_status =
  status_phase :: pyval

record pv_model =
  pv_metadata :: object_meta
  pv_spec :: pv_spec
  pv_status :: pv_status

text \<open>The controller object \<^verbatim>\<open>K8sPersistentVolume\<close>; \<open>pv_type\<close> is \<^verbatim>\<open>self._type\<close>.\<close>

record 'cfg K8sPersistentVolume =
  pv_config :: 'cfg
  pv_obj_type :: string
  pv_type :: pyval
  pv_model :: pv_model

section \<open>K8sPersistentVolume: type, source and the variant accessors\<close>

text \<open>
  \<^verbatim>\<open>Volume.VOLUME_TYPES_TO_SOURCE_MAP\<close> is declared in the imported module
  \<^verbatim>\<open>kubernetes.models.v1.Volume\<close>, not in \<^verbatim>\<open>K8sPersistentVolume.py\<close>. It is a parameter
  \<open>tbl\<close> of everything below: the dictionary as an association list from the name
  of a volume type to the object its source class constructs.
\<close>

type_synonym source_map = "(string \<times> source_obj) list"

definition VALID_VOLUME_TYPES :: "source_map \<Rightarrow> string list" where
  "VALID_VOLUME_TYPES tbl =
     filter (\<lambda>x. x \<notin> set [''emptyDir'', ''gitRepo'', ''secret'']) (map fst tbl)"

text \<open>\<^verbatim>\<open>t in xs\<close> for a list of strings.\<close>

fun py_in :: "pyval \<Rightarrow> string list \<Rightarrow> bool" where
  "py_in PyNone xs = False"
| "py_in (PyStr s) xs = (s \<in> set xs)"

text \<open>
  Modelled from the spec: \<^verbatim>\<open>Volume.vol_type_to_source\<close>, which is defined in the
  imported module \<^verbatim>\<open>kubernetes.models.v1.Volume\<close>. It yields the empty/default value of the source class that the table gives for the
  volume type; a type the table lacks is a \<^verbatim>\<open>KeyError\<close> of the dictionary.
\<close>

fun vol_type_to_source :: "source_map \<Rightarrow> pyval \<Rightarrow> error + source_obj" where
  "vol_type_to_source tbl PyNone = Inl (KeyError (py_format PyNone))"
| "vol_type_to_source tbl (PyStr t) =
     (case map_of tbl t of None \<Rightarrow> Inl (KeyError t) | Some src \<Rightarrow> Inr src)"

text \<open>
  Modelled from the spec: \<^verbatim>\<open>PersistentVolume()\<close>, the empty model that the imported
  class constructs: no name, no labels, no slot of the spec populated, no phase.
\<close>

definition PersistentVolume_empty :: pv_model where
  "PersistentVolume_empty =
     \<lparr> pv_metadata = \<lparr> meta_name = PyNone, meta_labels = Map.empty,
                       meta_annotations = Map.empty \<rparr>,
       pv_spec = \<lparr> spec_slots = Map.empty, spec_access_modes = [],
                   spec_capacity = Map.empty \<rparr>,
       pv_status = \<lparr> status_phase = PyNone \<rparr> \<rparr>"

text \<open>The \<^verbatim>\<open>name\<close> property.\<close>

definition name_getter :: "'cfg K8sPersistentVolume \<Rightarrow> pyval" where
  "name_getter s = meta_name (pv_metadata (pv_model s))"

definition name_setter :: "pyval \<Rightarrow> 'cfg K8sPersistentVolume \<Rightarrow> 'cfg K8sPersistentVolume" where
  "name_setter n s =
     (let m1 = (pv_model s)\<lparr> pv_metadata := (pv_metadata (pv_model s))\<lparr> meta_name := n \<rparr> \<rparr>;
          m2 = m1\<lparr> pv_metadata :=
                 (pv_metadata m1)\<lparr> meta_labels := (meta_labels (pv_metadata m1))(''name'' \<mapsto> n) \<rparr> \<rparr>
      in s\<lparr> pv_model := m2 \<rparr>)"

text \<open>
  The \<^verbatim>\<open>type\<close> property. A setter returns what it raised, or \<open>Inr ()\<close>, together with
  the object as the call leaves it.
\<close>

definition type_getter :: "'cfg K8sPersistentVolume \<Rightarrow> pyval" where
  "type_getter s = pv_type s"

definition type_invalid_msg :: "pyval \<Rightarrow> string" where
  "type_invalid_msg t = ''K8sPersistentVolume: type: [ '' @ py_format t @ '' ] is invalid.''"

text \<open>\<^verbatim>\<open>setattr(spec, t, src)\<close>; an attribute name that is not a string is a \<^verbatim>\<open>TypeError\<close>.\<close>

fun setattr_slot :: "pv_spec \<Rightarrow> pyval \<Rightarrow> source_obj \<Rightarrow> error + pv_spec" where
  "setattr_slot sp PyNone src = Inl TypeError"
| "setattr_slot sp (PyStr t) src = Inr (sp\<lparr> spec_slots := (spec_slots sp)(t \<mapsto> src) \<rparr>)"

definition type_setter ::
  "source_map \<Rightarrow> pyval \<Rightarrow> 'cfg K8sPersistentVolume \<Rightarrow> (error + unit) \<times> 'cfg K8sPersistentVolume"
where
  "type_setter tbl t s =
     (if \<not> py_in t (VALID_VOLUME_TYPES tbl)
      then (Inl (SyntaxError (type_invalid_msg t)), s)
      else
        let s1 = s\<lparr> pv_type := t \<rparr> in
        case vol_type_to_source tbl t of
          Inl e \<Rightarrow> (Inl e, s1)
        | Inr src \<Rightarrow>
            (case setattr_slot (pv_spec (pv_model s1)) t src of
               Inl e \<Rightarrow> (Inl e, s1)
             | Inr sp \<Rightarrow> (Inr (), s1\<lparr> pv_model := (pv_model s1)\<lparr> pv_spec := sp \<rparr> \<rparr>)))"

text \<open>
  Modelled from the spec: \<^verbatim>\<open>K8sObject.__init__\<close>, which is defined in the imported
  module \<^verbatim>\<open>kubernetes.K8sObject\<close>; the controller it sets up holds the configuration
  and the object-type tag.
  \<^verbatim>\<open>K8sPersistentVolume.__init__\<close> then sets \<^verbatim>\<open>_type\<close> to \<^verbatim>\<open>None\<close>, installs the empty
  model and assigns \<^verbatim>\<open>name\<close> and \<^verbatim>\<open>type\<close> through their setters. A constructor that
  raises yields no object.
\<close>

definition K8sPersistentVolume_init ::
  "source_map \<Rightarrow> 'cfg \<Rightarrow> pyval \<Rightarrow> pyval \<Rightarrow> error + 'cfg K8sPersistentVolume"
where
  "K8sPersistentVolume_init tbl cfg name t =
     (let s0 = \<lparr> pv_config = cfg, pv_obj_type = ''PersistentVolume'',
                 pv_type = PyNone, pv_model = PersistentVolume_empty \<rparr>;
          s1 = name_setter name s0
      in case type_setter tbl t s1 of
           (Inl e, _) \<Rightarrow> Inl e
         | (Inr _, s2) \<Rightarrow> Inr s2)"

text \<open>
  The \<^verbatim>\<open>source\<close> property: \<^verbatim>\<open>getattr(self.model.spec, self._type, None)\<close>. An
  attribute name that is not a string is a \<^verbatim>\<open>TypeError\<close> of \<^verbatim>\<open>getattr\<close>.
\<close>

fun getattr_slot :: "pv_spec \<Rightarrow> pyval \<Rightarrow> error + source_obj option" where
  "getattr_slot sp PyNone = Inl TypeError"
| "getattr_slot sp (PyStr t) = Inr (spec_slots sp t)"

definition source_getter :: "'cfg K8sPersistentVolume \<Rightarrow> error + source_obj option" where
  "source_getter s = getattr_slot (pv_spec (pv_model s)) (pv_type s)"

text \<open>\<^verbatim>\<open>hasattr(o, f)\<close>, where \<^verbatim>\<open>o\<close> may be \<^verbatim>\<open>None\<close>.\<close>

fun hasattr :: "source_obj option \<Rightarrow> string \<Rightarrow> bool" where
  "hasattr None f = False"
| "hasattr (Some src) f = (src f \<noteq> None)"

text \<open>
  The six variant accessors. Each getter tests \<^verbatim>\<open>hasattr(self.source, f)\<close> and then
  reads \<^verbatim>\<open>self.source.f\<close>; each setter tests the same and then assigns
  \<^verbatim>\<open>self.source.f = v\<close>, which changes the object held in the slot of the active type:
  the changed object is stored back into that slot. \<open>read_attr\<close> and \<open>write_attr\<close>
  are the two bodies, with the attribute name left open; \<open>getattr_obj\<close> is \<^verbatim>\<open>o.f\<close>.
\<close>

fun getattr_obj :: "source_obj option \<Rightarrow> string \<Rightarrow> error + pyval" where
  "getattr_obj None f = Inl AttributeError"
| "getattr_obj (Some obj) f = (case obj f of None \<Rightarrow> Inl AttributeError | Some v \<Rightarrow> Inr v)"

definition read_attr :: "string \<Rightarrow> 'cfg K8sPersistentVolume \<Rightarrow> error + pyval" where
  "read_attr f s =
     (case source_getter s of
        Inl e \<Rightarrow> Inl e
      | Inr src \<Rightarrow>
          if \<not> hasattr src f then Inl NotImplementedError
          else getattr_obj src f)"

definition write_attr ::
  "string \<Rightarrow> pyval \<Rightarrow> 'cfg K8sPersistentVolume \<Rightarrow> (error + unit) \<times> 'cfg K8sPersistentVolume"
where
  "write_attr f v s =
     (case source_getter s of
        Inl e \<Rightarrow> (Inl e, s)
      | Inr src \<Rightarrow>
          if \<not> hasattr src f then (Inl NotImplementedError, s)
          else (case src of
                  None \<Rightarrow> (Inl AttributeError, s)
                | Some obj \<Rightarrow>
                    (case setattr_slot (pv_spec (pv_model s)) (pv_type s) (obj(f \<mapsto> v)) of
                       Inl e \<Rightarrow> (Inl e, s)
                     | Inr sp \<Rightarrow> (Inr (), s\<lparr> pv_model := (pv_model s)\<lparr> pv_spec := sp \<rparr> \<rparr>))))"

definition host_path_getter :: "'cfg K8sPersistentVolume \<Rightarrow> error + pyval" where
  "host_path_getter s = read_attr ''path'' s"

definition host_path_setter ::
  "pyval \<Rightarrow> 'cfg K8sPersistentVolume \<Rightarrow> (error + unit) \<times> 'cfg K8sPersistentVolume" where
  "host_path_setter p s = write_attr ''path'' p s"

definition volume_id_getter :: "'cfg K8sPersistentVolume \<Rightarrow> error + pyval" where
  "volume_id_getter s = read_attr ''volume_id'' s"

definition volume_id_setter ::
  "pyval \<Rightarrow> 'cfg K8sPersistentVolume \<Rightarrow> (error + unit) \<times> 'cfg K8sPersistentVolume" where
  "volume_id_setter vid s = write_attr ''volume_id'' vid s"

definition pd_name_getter :: "'cfg K8sPersistentVolume \<Rightarrow> error + pyval" where
  "pd_name_getter s = read_attr ''pd_name'' s"

definition pd_name_setter ::
  "pyval \<Rightarrow> 'cfg K8sPersistentVolume \<Rightarrow> (error + unit) \<times> 'cfg K8sPersistentVolume" where
  "pd_name_setter pd s = write_attr ''pd_name'' pd s"

definition fs_type_getter :: "'cfg K8sPersistentVolume \<Rightarrow> error + pyval" where
  "fs_type_getter s = read_attr ''fs_type'' s"

definition fs_type_setter ::
  "pyval \<Rightarrow> 'cfg K8sPersistentVolume \<Rightarrow> (error + unit) \<times> 'cfg K8sPersistentVolume" where
  "fs_type_setter t s = write_attr ''fs_type'' t s"

definition nfs_server_getter :: "'cfg K8sPersistentVolume \<Rightarrow> error + pyval" where
  "nfs_server_getter s = read_attr ''server'' s"

definition nfs_server_setter ::
  "pyval \<Rightarrow> 'cfg K8sPersistentVolume \<Rightarrow> (error + unit) \<times> 'cfg K8sPersistentVolume" where
  "nfs_server_setter sv s = write_attr ''server'' sv s"

definition nfs_path_getter :: "'cfg K8sPersistentVolume \<Rightarrow> error + pyval" where
  "nfs_path_getter s = read_attr ''path'' s"

definition nfs_path_setter ::
  "pyval \<Rightarrow> 'cfg K8sPersistentVolume \<Rightarrow> (error + unit) \<times> 'cfg K8sPersistentVolume" where
  "nfs_path_setter p s = write_attr ''path'' p s"

text \<open>
  The six accessors under one name each, for statements about all of them:
  \<open>accessor_field\<close> is the attribute that the accessor's \<^verbatim>\<open>hasattr\<close> test names.
\<close>

datatype accessor = Host_path | Volume_id | Pd_name | Fs_type | Nfs_server | Nfs_path

fun accessor_field :: "accessor \<Rightarrow> string" where
  "accessor_field Host_path = ''path''"
| "accessor_field Volume_id = ''volume_id''"
| "accessor_field Pd_name = ''pd_name''"
| "accessor_field Fs_type = ''fs_type''"
| "accessor_field Nfs_server = ''server''"
| "accessor_field Nfs_path = ''path''"

fun accessor_get :: "accessor \<Rightarrow> 'cfg K8sPersistentVolume \<Rightarrow> error + pyval" where
  "accessor_get Host_path = host_path_getter"
| "accessor_get Volume_id = volume_id_getter"
| "accessor_get Pd_name = pd_name_getter"
| "accessor_get Fs_type = fs_type_getter"
| "accessor_get Nfs_server = nfs_server_getter"
| "accessor_get Nfs_path = nfs_path_getter"

fun accessor_set ::
  "accessor \<Rightarrow> pyval \<Rightarrow> 'cfg K8sPersistentVolume \<Rightarrow> (error + unit) \<times> 'cfg K8sPersistentVolume" where
  "accessor_set Host_path = host_path_setter"
| "accessor_set Volume_id = volume_id_setter"
| "accessor_set Pd_name = pd_name_setter"
| "accessor_set Fs_type = fs_type_setter"
| "accessor_set Nfs_server = nfs_server_setter"
| "accessor_set Nfs_path = nfs_path_setter"

section \<open>The remote operations of the base class\<close>

text \<open>
  The base class \<^verbatim>\<open>K8sObject\<close> is defined in the imported module
  \<^verbatim>\<open>kubernetes.K8sObject\<close>. Its four methods that the two classes call are parameters: each reads the calling controller \<open>'c\<close>, talks
  to the server, whose state is \<open>'w\<close>, and raises or returns. \<^verbatim>\<open>get_model\<close> returns a
  document \<open>'d\<close> and \<^verbatim>\<open>list\<close> a sequence of documents, in the order of the server.
  The constructors of the models, \<^verbatim>\<open>Namespace(doc)\<close> and \<^verbatim>\<open>PersistentVolume(model=doc)\<close>,
  are imported from \<^verbatim>\<open>kubernetes.models.v1\<close> as well: they are a parameter \<open>parse\<close>.
\<close>

record ('c, 'w, 'd) K8sObject =
  base_create :: "'c \<Rightarrow> 'w \<Rightarrow> (error + unit) \<times> 'w"
  base_update :: "'c \<Rightarrow> 'w \<Rightarrow> (error + unit) \<times> 'w"
  base_list :: "'c \<Rightarrow> 'w \<Rightarrow> (error + 'd list) \<times> 'w"
  get_model :: "'c \<Rightarrow> 'w \<Rightarrow> (error + 'd) \<times> 'w"

section \<open>K8sNamespace\<close>

record ns_spec =
  ns_finalizers :: "string list"

record ns_status =
  ns_phase :: pyval

record ns_model =
  ns_metadata :: object_meta
  ns_spec :: ns_spec
  ns_status :: ns_status

record 'cfg K8sNamespace =
  ns_config :: 'cfg
  ns_obj_type :: string
  ns_model :: ns_model

text \<open>
  Modelled from the spec: \<^verbatim>\<open>Namespace()\<close>, the empty model that the imported class
  constructs.
\<close>

definition Namespace_empty :: ns_model where
  "Namespace_empty =
     \<lparr> ns_metadata = \<lparr> meta_name = PyNone, meta_labels = Map.empty,
                       meta_annotations = Map.empty \<rparr>,
       ns_spec = \<lparr> ns_finalizers = [] \<rparr>,
       ns_status = \<lparr> ns_phase = PyNone \<rparr> \<rparr>"

text \<open>
  Modelled from the spec: \<^verbatim>\<open>K8sObject.__init__\<close>, which is defined in the imported
  module \<^verbatim>\<open>kubernetes.K8sObject\<close>; the controller it sets up holds the configuration,
  the object-type tag and an empty model that carries the name.
\<close>

definition K8sNamespace_init :: "'cfg \<Rightarrow> pyval \<Rightarrow> 'cfg K8sNamespace" where
  "K8sNamespace_init cfg name =
     \<lparr> ns_config = cfg, ns_obj_type = ''Namespace'',
       ns_model = Namespace_empty\<lparr> ns_metadata :=
                    (ns_metadata Namespace_empty)\<lparr> meta_name := name \<rparr> \<rparr> \<rparr>"

definition ns_name_getter :: "'cfg K8sNamespace \<Rightarrow> pyval" where
  "ns_name_getter s = meta_name (ns_metadata (ns_model s))"

text \<open>
  A method that talks to the server returns what it raised, or its value, with the
  controller and the server as the call leaves them. \<^verbatim>\<open>return self\<close> is \<open>Inr ()\<close> with
  that controller.
\<close>

definition ns_get ::
  "('cfg K8sNamespace, 'w, 'd) K8sObject \<Rightarrow> ('d \<Rightarrow> ns_model) \<Rightarrow> 'cfg K8sNamespace \<Rightarrow> 'w
     \<Rightarrow> (error + unit) \<times> 'cfg K8sNamespace \<times> 'w"
where
  "ns_get api parse s w =
     (case get_model api s w of
        (Inl e, w1) \<Rightarrow> (Inl e, s, w1)
      | (Inr d, w1) \<Rightarrow> (Inr (), s\<lparr> ns_model := parse d \<rparr>, w1))"

definition ns_create ::
  "('cfg K8sNamespace, 'w, 'd) K8sObject \<Rightarrow> ('d \<Rightarrow> ns_model) \<Rightarrow> 'cfg K8sNamespace \<Rightarrow> 'w
     \<Rightarrow> (error + unit) \<times> 'cfg K8sNamespace \<times> 'w"
where
  "ns_create api parse s w =
     (case base_create api s w of
        (Inl e, w1) \<Rightarrow> (Inl e, s, w1)
      | (Inr _, w1) \<Rightarrow> ns_get api parse s w1)"

definition ns_update ::
  "('cfg K8sNamespace, 'w, 'd) K8sObject \<Rightarrow> ('d \<Rightarrow> ns_model) \<Rightarrow> 'cfg K8sNamespace \<Rightarrow> 'w
     \<Rightarrow> (error + unit) \<times> 'cfg K8sNamespace \<times> 'w"
where
  "ns_update api parse s w =
     (case base_update api s w of
        (Inl e, w1) \<Rightarrow> (Inl e, s, w1)
      | (Inr _, w1) \<Rightarrow> ns_get api parse s w1)"

definition ns_list ::
  "('cfg K8sNamespace, 'w, 'd) K8sObject \<Rightarrow> ('d \<Rightarrow> ns_model) \<Rightarrow> 'cfg K8sNamespace \<Rightarrow> 'w
     \<Rightarrow> (error + 'cfg K8sNamespace list) \<times> 'w"
where
  "ns_list api parse s w =
     (case base_list api s w of
        (Inl e, w1) \<Rightarrow> (Inl e, w1)
      | (Inr ns, w1) \<Rightarrow>
          (Inr (map (\<lambda>x. let y = parse x;
                              k8s = K8sNamespace_init (ns_config s) (ns_name_getter s)
                          in k8s\<lparr> ns_model := y \<rparr>) ns),
           w1))"

text \<open>
  \<^verbatim>\<open>k in d\<close> and \<^verbatim>\<open>d[k]\<close> for a dictionary with string keys; a key that the
  dictionary lacks is a \<^verbatim>\<open>KeyError\<close> of the subscript.
\<close>

fun dict_contains :: "(string \<rightharpoonup> pyval) \<Rightarrow> pyval \<Rightarrow> bool" where
  "dict_contains d PyNone = False"
| "dict_contains d (PyStr k) = (d k \<noteq> None)"

fun dict_getitem :: "(string \<rightharpoonup> pyval) \<Rightarrow> pyval \<Rightarrow> error + pyval" where
  "dict_getitem d PyNone = Inl (KeyError (py_format PyNone))"
| "dict_getitem d (PyStr k) = (case d k of None \<Rightarrow> Inl (KeyError k) | Some v \<Rightarrow> Inr v)"

definition get_annotation :: "pyval \<Rightarrow> 'cfg K8sNamespace \<Rightarrow> error + pyval" where
  "get_annotation k s =
     (if dict_contains (meta_annotations (ns_metadata (ns_model s))) k
      then dict_getitem (meta_annotations (ns_metadata (ns_model s))) k
      else Inr PyNone)"

definition get_label :: "pyval \<Rightarrow> 'cfg K8sNamespace \<Rightarrow> error + pyval" where
  "get_label k s =
     (if dict_contains (meta_labels (ns_metadata (ns_model s))) k
      then dict_getitem (meta_labels (ns_metadata (ns_model s))) k
      else Inr PyNone)"

text \<open>
  \<^verbatim>\<open>get_by_name\<close>: the list that \<^verbatim>\<open>filter\<close> returns is true when it is not empty, and
  \<^verbatim>\<open>filtered[0]\<close> is its head.
\<close>

definition get_by_name ::
  "('cfg K8sNamespace, 'w, 'd) K8sObject \<Rightarrow> ('d \<Rightarrow> ns_model) \<Rightarrow> 'cfg \<Rightarrow> pyval \<Rightarrow> 'w
     \<Rightarrow> (error + 'cfg K8sNamespace option) \<times> 'w"
where
  "get_by_name api parse cfg name w =
     (case ns_list api parse (K8sNamespace_init cfg name) w of
        (Inl e, w1) \<Rightarrow> (Inl e, w1)
      | (Inr namespaces, w1) \<Rightarrow>
          (let filtered = filter (\<lambda>x. ns_name_getter x = name) namespaces
           in case filtered of
                [] \<Rightarrow> (Inr None, w1)
              | x # _ \<Rightarrow> (Inr (Some x), w1)))"

section \<open>K8sPersistentVolume: create and the readiness polling\<close>

definition READY_WAIT_TIMEOUT_SECONDS :: real where
  "READY_WAIT_TIMEOUT_SECONDS = 60"

definition pv_get ::
  "('cfg K8sPersistentVolume, 'w, 'd) K8sObject \<Rightarrow> ('d \<Rightarrow> pv_model) \<Rightarrow> 'cfg K8sPersistentVolume
     \<Rightarrow> 'w \<Rightarrow> (error + unit) \<times> 'cfg K8sPersistentVolume \<times> 'w"
where
  "pv_get api parse s w =
     (case get_model api s w of
        (Inl e, w1) \<Rightarrow> (Inl e, s, w1)
      | (Inr d, w1) \<Rightarrow> (Inr (), s\<lparr> pv_model := parse d \<rparr>, w1))"

definition timed_out_msg :: "pyval \<Rightarrow> string" where
  "timed_out_msg n =
     ''Timed out waiting on readiness of PersistentVolume: [ '' @ py_format n @ '' ]''"

text \<open>
  \<^verbatim>\<open>time.time()\<close> returns a double and \<^verbatim>\<open>time.time() - start_time\<close> is the
  subtraction of IEEE 754 binary64: the exact difference, rounded to the nearest
  double, ties to the even significand. A reading of the clock is a finite
  double, and a double is the real number that it denotes. \<open>bit_length\<close> is the number of binary digits of a natural number,
  \<open>binade x\<close> is the exponent \<open>e\<close> with \<open>2^e \<le> x < 2^(e+1)\<close> for \<open>x > 0\<close>, the spacing
  of the doubles around \<open>x\<close> is \<open>2^(e - 52)\<close>, and \<open>e\<close> is not below the exponent
  \<open>-1022\<close> of the subnormal doubles. A difference beyond the largest double is
  infinite in the machine and a large real here; both compare with 60 alike.
\<close>

fun bit_length :: "nat \<Rightarrow> nat" where
  "bit_length n = (if n = 0 then 0 else Suc (bit_length (n div 2)))"

declare bit_length.simps [simp del]

definition pow2 :: "int \<Rightarrow> real" where
  "pow2 e = (if 0 \<le> e then 2 ^ nat e else 1 / 2 ^ nat (- e))"

definition binade :: "real \<Rightarrow> int" where
  "binade x =
     (if 1 \<le> x then int (bit_length (nat \<lfloor>x\<rfloor>)) - 1
      else - int (bit_length (nat (\<lceil>1 / x\<rceil> - 1))))"

definition round_half_even :: "real \<Rightarrow> int" where
  "round_half_even q =
     (let f = \<lfloor>q\<rfloor>; r = q - of_int f
      in if r < 1 / 2 then f
         else if 1 / 2 < r then f + 1
         else if even f then f else f + 1)"

definition double_round :: "real \<Rightarrow> real" where
  "double_round x =
     (if x = 0 then 0
      else let e = max (binade \<bar>x\<bar>) (- 1022);
               u = pow2 (e - 52)
           in of_int (round_half_even (x / u)) * u)"

definition double_sub :: "real \<Rightarrow> real \<Rightarrow> real" where
  "double_sub a b = double_round (a - b)"

text \<open>
  The \<^verbatim>\<open>while\<close> loop of \<^verbatim>\<open>_wait_for_available\<close>. \<^verbatim>\<open>time.time()\<close> is the parameter
  \<open>tm\<close>, which reads the clock of the world. The comparison of the double
  \<^verbatim>\<open>elapsed_time\<close> with the integer 60 is exact. Nothing bounds the number of
  iterations, so the loop runs on fuel, one unit for each test of the loop
  condition: \<open>None\<close> says that the loop is still running when the fuel is spent.
\<close>

fun wait_loop ::
  "('cfg K8sPersistentVolume, 'w, 'd) K8sObject \<Rightarrow> ('d \<Rightarrow> pv_model) \<Rightarrow> ('w \<Rightarrow> real \<times> 'w) \<Rightarrow> real
     \<Rightarrow> nat \<Rightarrow> 'cfg K8sPersistentVolume \<Rightarrow> 'w
     \<Rightarrow> ((error + unit) \<times> 'cfg K8sPersistentVolume \<times> 'w) option"
where
  "wait_loop api parse tm start_time 0 s w = None"
| "wait_loop api parse tm start_time (Suc fuel) s w =
     (if \<not> status_phase (pv_status (pv_model s)) = PyStr ''Available''
      then
        (case pv_get api parse s w of
           (Inl e, s1, w1) \<Rightarrow> Some (Inl e, s1, w1)
         | (Inr _, s1, w1) \<Rightarrow>
             (case tm w1 of
                (now, w2) \<Rightarrow>
                  let elapsed_time = double_sub now start_time in
                  if elapsed_time \<ge> READY_WAIT_TIMEOUT_SECONDS
                  then Some (Inl (TimedOutException (timed_out_msg (name_getter s1))), s1, w2)
                  else wait_loop api parse tm start_time fuel s1 w2))
      else Some (Inr (), s, w))"

definition wait_for_available ::
  "('cfg K8sPersistentVolume, 'w, 'd) K8sObject \<Rightarrow> ('d \<Rightarrow> pv_model) \<Rightarrow> ('w \<Rightarrow> real \<times> 'w)
     \<Rightarrow> nat \<Rightarrow> 'cfg K8sPersistentVolume \<Rightarrow> 'w
     \<Rightarrow> ((error + unit) \<times> 'cfg K8sPersistentVolume \<times> 'w) option"
where
  "wait_for_available api parse tm fuel s w =
     (case tm w of (start_time, w0) \<Rightarrow> wait_loop api parse tm start_time fuel s w0)"

definition pv_create ::
  "('cfg K8sPersistentVolume, 'w, 'd) K8sObject \<Rightarrow> ('d \<Rightarrow> pv_model) \<Rightarrow> ('w \<Rightarrow> real \<times> 'w)
     \<Rightarrow> nat \<Rightarrow> 'cfg K8sPersistentVolume \<Rightarrow> 'w
     \<Rightarrow> ((error + unit) \<times> 'cfg K8sPersistentVolume \<times> 'w) option"
where
  "pv_create api parse tm fuel s w =
     (case base_create api s w of
        (Inl e, w1) \<Rightarrow> Some (Inl e, s, w1)
      | (Inr _, w1) \<Rightarrow> wait_for_available api parse tm fuel s w1)"

text \<open>
  A scripted server and clock, as a test with a mocked transport has them: the
  world counts the calls of \<^verbatim>\<open>get_model\<close> and the readings of the clock, the
  \<open>i\<close>-th call of \<^verbatim>\<open>get_model\<close> answers \<open>srv i\<close> and the \<open>i\<close>-th reading of the clock is
  \<open>clk i\<close>. Creating and updating succeed and the listing is empty.
\<close>

record mock_world =
  mock_gets :: nat
  mock_reads :: nat

definition mock_api :: "(nat \<Rightarrow> error + 'd) \<Rightarrow> ('c, mock_world, 'd) K8sObject" where
  "mock_api srv =
     \<lparr> base_create = (\<lambda>c w. (Inr (), w)),
       base_update = (\<lambda>c w. (Inr (), w)),
       base_list = (\<lambda>c w. (Inr [], w)),
       get_model = (\<lambda>c w. (srv (mock_gets w), w\<lparr> mock_gets := Suc (mock_gets w) \<rparr>)) \<rparr>"

definition mock_time :: "(nat \<Rightarrow> real) \<Rightarrow> mock_world \<Rightarrow> real \<times> mock_world" where
  "mock_time clk w = (clk (mock_reads w), w\<lparr> mock_reads := Suc (mock_reads w) \<rparr>)"

section \<open>Concrete inputs\<close>

text \<open>
  Modelled from the spec: an instance of \<^verbatim>\<open>Volume.VOLUME_TYPES_TO_SOURCE_MAP\<close>, which is
  declared in the imported module \<^verbatim>\<open>kubernetes.models.v1.Volume\<close>, for running the
  operations on concrete inputs. It has the volume types that the specification and the comments of the
  accessors name, each with the attributes that the accessors of its variant
  test. The general statements below hold for every table.
\<close>

definition VOLUME_TYPES_TO_SOURCE_MAP :: source_map where
  "VOLUME_TYPES_TO_SOURCE_MAP =
     [(''awsElasticBlockStore'', [''volume_id'' \<mapsto> PyNone, ''fs_type'' \<mapsto> PyNone]),
      (''emptyDir'', Map.empty),
      (''gcePersistentDisk'', [''pd_name'' \<mapsto> PyNone, ''fs_type'' \<mapsto> PyNone]),
      (''gitRepo'', Map.empty),
      (''hostPath'', [''path'' \<mapsto> PyNone]),
      (''nfs'', [''server'' \<mapsto> PyNone, ''path'' \<mapsto> PyNone]),
      (''secret'', Map.empty)]"

text \<open>
  The controller that \<^verbatim>\<open>K8sPersistentVolume(name='pv0', type='hostPath')\<close> constructs
  with this table.
\<close>

definition hostPath_pv :: "unit K8sPersistentVolume" where
  "hostPath_pv =
     \<lparr> pv_config = (), pv_obj_type = ''PersistentVolume'', pv_type = PyStr ''hostPath'',
       pv_model =
         \<lparr> pv_metadata = \<lparr> meta_name = PyStr ''pv0'',
                           meta_labels = [''name'' \<mapsto> PyStr ''pv0''],
                           meta_annotations = Map.empty \<rparr>,
           pv_spec = \<lparr> spec_slots = [''hostPath'' \<mapsto> [''path'' \<mapsto> PyNone]],
                       spec_access_modes = [], spec_capacity = Map.empty \<rparr>,
           pv_status = \<lparr> status_phase = PyNone \<rparr> \<rparr> \<rparr>"

text \<open>A document of the server for this volume, with the given phase.\<close>

definition server_doc :: "pyval \<Rightarrow> pv_model" where
  "server_doc ph = (pv_model hostPath_pv)\<lparr> pv_status := \<lparr> status_phase = ph \<rparr> \<rparr>"

text \<open>
  Scripted servers: one that answers every \<^verbatim>\<open>get_model\<close> with the phase \<^verbatim>\<open>Pending\<close>,
  one that always answers \<^verbatim>\<open>Available\<close>, and one that answers \<^verbatim>\<open>Pending\<close> twice and
  \<^verbatim>\<open>Available\<close> from then on.
\<close>

definition always_pending :: "nat \<Rightarrow> error + pv_model" where
  "always_pending i = Inr (server_doc (PyStr ''Pending''))"

definition always_available :: "nat \<Rightarrow> error + pv_model" where
  "always_available i = Inr (server_doc (PyStr ''Available''))"

definition pending_twice :: "nat \<Rightarrow> error + pv_model" where
  "pending_twice i =
     Inr (if i < 2 then server_doc (PyStr ''Pending'') else server_doc (PyStr ''Available''))"

text \<open>
  Scripted clocks: readings one second apart, thirty seconds apart (the second
  poll is exactly 60 seconds after the start), a hundred seconds apart, a clock
  that stands still, and a clock that reads \<open>4 + 2^-50\<close> at the start and \<open>64\<close>
  afterwards, two doubles whose exact difference is below 60 and whose double
  difference is 60.
\<close>

definition clock_1 :: "nat \<Rightarrow> real" where
  "clock_1 i = real i"

definition clock_30 :: "nat \<Rightarrow> real" where
  "clock_30 i = 30 * real i"

definition clock_100 :: "nat \<Rightarrow> real" where
  "clock_100 i = 100 * real i"

definition clock_still :: "nat \<Rightarrow> real" where
  "clock_still i = 7"

definition clock_rounding :: "nat \<Rightarrow> real" where
  "clock_rounding i = (if i = 0 then 4 + 1 / 2 ^ 50 else 64)"

text \<open>
  A controller whose model is \<^verbatim>\<open>Available\<close> before \<^verbatim>\<open>create()\<close>: the controller
  constructed above after a \<^verbatim>\<open>get()\<close> that fetched an \<^verbatim>\<open>Available\<close> volume and an
  assignment of a new name.
\<close>

definition fetched_pv :: "unit K8sPersistentVolume" where
  "fetched_pv = hostPath_pv\<lparr> pv_model := server_doc (PyStr ''Available'') \<rparr>"

definition stale_pv :: "unit K8sPersistentVolume" where
  "stale_pv = name_setter (PyStr ''pv1'') fetched_pv"

text \<open>A namespace document with the given name and the given value of the label \<^verbatim>\<open>tier\<close>.\<close>

definition ns_doc :: "string \<Rightarrow> string \<Rightarrow> ns_model" where
  "ns_doc n l =
     \<lparr> ns_metadata = \<lparr> meta_name = PyStr n, meta_labels = [''tier'' \<mapsto> PyStr l],
                       meta_annotations = Map.empty \<rparr>,
       ns_spec = \<lparr> ns_finalizers = [''kubernetes''] \<rparr>,
       ns_status = \<lparr> ns_phase = PyStr ''Active'' \<rparr> \<rparr>"

text \<open>
  A server that holds the namespace documents \<open>docs\<close>: the listing returns them in
  order, \<^verbatim>\<open>get_model\<close> returns the first document named like the calling controller
  and fails with status 404 when there is none; the world counts the requests.
\<close>

definition store_api :: "ns_model list \<Rightarrow> ('cfg K8sNamespace, nat, ns_model) K8sObject" where
  "store_api docs =
     \<lparr> base_create = (\<lambda>c w. (Inr (), Suc w)),
       base_update = (\<lambda>c w. (Inr (), Suc w)),
       base_list = (\<lambda>c w. (Inr docs, Suc w)),
       get_model = (\<lambda>c w.
          (case find (\<lambda>d. meta_name (ns_metadata d) = ns_name_getter c) docs of
             None \<Rightarrow> Inl (TransportError 404)
           | Some d \<Rightarrow> Inr d,
           Suc w)) \<rparr>"

section \<open>Facts about the concrete inputs\<close>

lemma valid_types: "VALID_VOLUME_TYPES VOLUME_TYPES_TO_SOURCE_MAP = [''awsElasticBlockStore'', ''gcePersistentDisk'', ''hostPath'', ''nfs'']"
  by (simp add: VALID_VOLUME_TYPES_def VOLUME_TYPES_TO_SOURCE_MAP_def)

lemma vol_hostPath:
  "map_of VOLUME_TYPES_TO_SOURCE_MAP ''hostPath'' = Some [''path'' \<mapsto> PyNone]"
  by (simp add: VOLUME_TYPES_TO_SOURCE_MAP_def)

lemma vol_nfs:
  "map_of VOLUME_TYPES_TO_SOURCE_MAP ''nfs'' = Some [''server'' \<mapsto> PyNone, ''path'' \<mapsto> PyNone]"
  by (simp add: VOLUME_TYPES_TO_SOURCE_MAP_def)

lemma init_hostPath:
  "K8sPersistentVolume_init VOLUME_TYPES_TO_SOURCE_MAP () (PyStr ''pv0'') (PyStr ''hostPath'') = Inr hostPath_pv"
  by (simp add: K8sPersistentVolume_init_def type_setter_def name_setter_def valid_types
      PersistentVolume_empty_def hostPath_pv_def vol_hostPath Let_def)

lemma valid_in_table:
  "t \<in> set (VALID_VOLUME_TYPES tbl) \<Longrightarrow> map_of tbl t \<noteq> None"
  by (auto simp: VALID_VOLUME_TYPES_def map_of_eq_None_iff)

section \<open>The type of a persistent volume\<close>

text \<open>
  Claim C3, as the code has it. For every valid volume type \<open>t\<close> (a key of the table
  other than \<^verbatim>\<open>emptyDir\<close>, \<^verbatim>\<open>gitRepo\<close> and \<^verbatim>\<open>secret\<close>), assigning \<open>t\<close> to \<^verbatim>\<open>type\<close>
  succeeds, reading \<^verbatim>\<open>type\<close> then returns \<open>t\<close>, the slot of \<open>t\<close> holds the default source
  value that the table gives for \<open>t\<close>, and every other slot of the spec is as it was
  before. So exactly the slot of \<open>t\<close> is populated when no other slot was populated
  before the assignment, as in the constructor; the setter clears no slot.
\<close>

theorem type_setter_valid:
  assumes "t \<in> set (VALID_VOLUME_TYPES tbl)"
  shows "fst (type_setter tbl (PyStr t) s) = Inr ()
       \<and> type_getter (snd (type_setter tbl (PyStr t) s)) = PyStr t
       \<and> map_of tbl t \<noteq> None
       \<and> spec_slots (pv_spec (pv_model (snd (type_setter tbl (PyStr t) s))))
           = (spec_slots (pv_spec (pv_model s)))(t := map_of tbl t)
       \<and> (dom (spec_slots (pv_spec (pv_model s))) \<subseteq> {t} \<longrightarrow>
            dom (spec_slots (pv_spec (pv_model (snd (type_setter tbl (PyStr t) s))))) = {t})"
proof -
  from assms obtain src where src: "map_of tbl t = Some src"
    using valid_in_table by blast
  with assms show ?thesis
    by (auto simp: type_setter_def type_getter_def)
qed

text \<open>
  The statement at the controller constructed with \<^verbatim>\<open>hostPath\<close>, assigned
  \<^verbatim>\<open>hostPath\<close> again.
\<close>

theorem type_setter_valid_witness:
  "''hostPath'' \<in> set (VALID_VOLUME_TYPES VOLUME_TYPES_TO_SOURCE_MAP)
   \<and> dom (spec_slots (pv_spec (pv_model hostPath_pv))) \<subseteq> {''hostPath''}
   \<and> fst (type_setter VOLUME_TYPES_TO_SOURCE_MAP (PyStr ''hostPath'') hostPath_pv) = Inr ()
   \<and> type_getter (snd (type_setter VOLUME_TYPES_TO_SOURCE_MAP (PyStr ''hostPath'') hostPath_pv)) = PyStr ''hostPath''
   \<and> dom (spec_slots (pv_spec (pv_model (snd (type_setter VOLUME_TYPES_TO_SOURCE_MAP (PyStr ''hostPath'') hostPath_pv)))))
        = {''hostPath''}"
proof -
  have v: "''hostPath'' \<in> set (VALID_VOLUME_TYPES VOLUME_TYPES_TO_SOURCE_MAP)"
    by (simp add: valid_types)
  have d: "dom (spec_slots (pv_spec (pv_model hostPath_pv))) \<subseteq> {''hostPath''}"
    by (simp add: hostPath_pv_def)
  from type_setter_valid [OF v, of hostPath_pv] v d show ?thesis by blast
qed

text \<open>
  Exactly one populated slot does not hold for every assignment: the controller
  constructed with \<^verbatim>\<open>hostPath\<close> and then assigned the valid type \<^verbatim>\<open>nfs\<close> has both
  slots populated.
\<close>

theorem second_type_counterexample:
  "''nfs'' \<in> set (VALID_VOLUME_TYPES VOLUME_TYPES_TO_SOURCE_MAP)
   \<and> K8sPersistentVolume_init VOLUME_TYPES_TO_SOURCE_MAP () (PyStr ''pv0'') (PyStr ''hostPath'') = Inr hostPath_pv
   \<and> fst (type_setter VOLUME_TYPES_TO_SOURCE_MAP (PyStr ''nfs'') hostPath_pv) = Inr ()
   \<and> dom (spec_slots (pv_spec (pv_model (snd (type_setter VOLUME_TYPES_TO_SOURCE_MAP (PyStr ''nfs'') hostPath_pv)))))
       = {''hostPath'', ''nfs''}
   \<and> dom (spec_slots (pv_spec (pv_model (snd (type_setter VOLUME_TYPES_TO_SOURCE_MAP (PyStr ''nfs'') hostPath_pv)))))
       \<noteq> {''nfs''}"
proof -
  have a: "type_setter VOLUME_TYPES_TO_SOURCE_MAP (PyStr ''nfs'') hostPath_pv
      = (Inr (), hostPath_pv\<lparr> pv_type := PyStr ''nfs'',
           pv_model := (pv_model hostPath_pv)\<lparr> pv_spec := (pv_spec (pv_model hostPath_pv))
             \<lparr> spec_slots := (spec_slots (pv_spec (pv_model hostPath_pv)))
                 (''nfs'' \<mapsto> [''server'' \<mapsto> PyNone, ''path'' \<mapsto> PyNone]) \<rparr> \<rparr> \<rparr>)"
    by (simp add: type_setter_def valid_types vol_nfs Let_def)
  have b: "dom (spec_slots (pv_spec (pv_model hostPath_pv))) = {''hostPath''}"
    by (simp add: hostPath_pv_def)
  have c: "{''hostPath'', ''nfs''} \<noteq> {''nfs''}" by auto
  show ?thesis
    using c by (simp add: a b init_hostPath valid_types insert_commute)
qed

text \<open>
  Claim C4. For every value \<open>t\<close> that is not among the valid volume types, and so for
  \<^verbatim>\<open>emptyDir\<close>, \<^verbatim>\<open>gitRepo\<close> and \<^verbatim>\<open>secret\<close> whatever the table is, assigning \<open>t\<close> to
  \<^verbatim>\<open>type\<close> raises \<^verbatim>\<open>SyntaxError\<close> (the kind \<open>InvalidArgument\<close>) and leaves the
  controller as it was: the active type and every slot of the spec are unchanged.
\<close>

theorem type_setter_invalid:
  "(\<not> py_in t (VALID_VOLUME_TYPES tbl) \<longrightarrow>
      type_setter tbl t s = (Inl (SyntaxError (type_invalid_msg t)), s))
   \<and> (\<forall>x \<in> {''emptyDir'', ''gitRepo'', ''secret''}.
        type_setter tbl (PyStr x) s
          = (Inl (SyntaxError (''K8sPersistentVolume: type: [ '' @ x @ '' ] is invalid.'')), s))"
  by (simp add: type_setter_def VALID_VOLUME_TYPES_def type_invalid_msg_def)

text \<open>The statement at \<^verbatim>\<open>secret\<close> and at a name that the table lacks.\<close>

theorem type_setter_invalid_witness:
  "\<not> py_in (PyStr ''secret'') (VALID_VOLUME_TYPES VOLUME_TYPES_TO_SOURCE_MAP)
   \<and> type_setter VOLUME_TYPES_TO_SOURCE_MAP (PyStr ''secret'') hostPath_pv
       = (Inl (SyntaxError ''K8sPersistentVolume: type: [ secret ] is invalid.''), hostPath_pv)
   \<and> type_setter VOLUME_TYPES_TO_SOURCE_MAP (PyStr ''cephfs'') hostPath_pv
       = (Inl (SyntaxError ''K8sPersistentVolume: type: [ cephfs ] is invalid.''), hostPath_pv)"
  using type_setter_invalid [of "PyStr ''cephfs''" VOLUME_TYPES_TO_SOURCE_MAP hostPath_pv]
    type_setter_invalid [of "PyStr ''secret''" VOLUME_TYPES_TO_SOURCE_MAP hostPath_pv]
  by (simp add: valid_types type_invalid_msg_def)

text \<open>
  Claim C9. Constructing a persistent volume with the type omitted or \<^verbatim>\<open>None\<close> fails
  with the \<^verbatim>\<open>SyntaxError\<close> that the type setter raises for \<^verbatim>\<open>None\<close>, whatever the table,
  the configuration and the name are; and every controller that the constructor
  returns has the type it was given as its active type, which is a valid one.
\<close>

theorem init_requires_type:
  "K8sPersistentVolume_init tbl cfg name PyNone
     = Inl (SyntaxError ''K8sPersistentVolume: type: [ None ] is invalid.'')
   \<and> fst (type_setter tbl PyNone s) = Inl (SyntaxError ''K8sPersistentVolume: type: [ None ] is invalid.'')
   \<and> (K8sPersistentVolume_init tbl cfg name t = Inr s' \<longrightarrow>
        type_getter s' = t \<and> py_in (type_getter s') (VALID_VOLUME_TYPES tbl))"
  by (auto simp: K8sPersistentVolume_init_def type_setter_def type_invalid_msg_def Let_def type_getter_def
      split: sum.splits if_splits prod.splits)

text \<open>The statement at the construction with \<^verbatim>\<open>hostPath\<close>.\<close>

theorem init_requires_type_witness:
  "K8sPersistentVolume_init VOLUME_TYPES_TO_SOURCE_MAP () (PyStr ''pv0'') (PyStr ''hostPath'') = Inr hostPath_pv
   \<and> type_getter hostPath_pv = PyStr ''hostPath''
   \<and> py_in (type_getter hostPath_pv) (VALID_VOLUME_TYPES VOLUME_TYPES_TO_SOURCE_MAP)"
  using init_requires_type [of VOLUME_TYPES_TO_SOURCE_MAP "()" "PyStr ''pv0''" hostPath_pv "PyStr ''hostPath''" hostPath_pv]
    init_hostPath
  by blast

text \<open>
  Claim C10. Assigning \<open>n\<close> to \<^verbatim>\<open>name\<close> sets both \<^verbatim>\<open>metadata.name\<close> and the label
  \<^verbatim>\<open>name\<close> of the metadata to \<open>n\<close> and changes nothing else: the other labels, the
  annotations, the spec, the status, the active type, the configuration and the
  object-type tag are as before.
\<close>

theorem name_setter_frame:
  "name_getter (name_setter n s) = n
   \<and> meta_labels (pv_metadata (pv_model (name_setter n s))) ''name'' = Some n
   \<and> meta_labels (pv_metadata (pv_model (name_setter n s)))
       = (meta_labels (pv_metadata (pv_model s)))(''name'' \<mapsto> n)
   \<and> meta_annotations (pv_metadata (pv_model (name_setter n s))) = meta_annotations (pv_metadata (pv_model s))
   \<and> pv_spec (pv_model (name_setter n s)) = pv_spec (pv_model s)
   \<and> pv_status (pv_model (name_setter n s)) = pv_status (pv_model s)
   \<and> pv_type (name_setter n s) = pv_type s
   \<and> pv_config (name_setter n s) = pv_config s
   \<and> pv_obj_type (name_setter n s) = pv_obj_type s"
  by (simp add: name_setter_def name_getter_def Let_def)

text \<open>The statement at a renaming of the controller constructed with \<^verbatim>\<open>hostPath\<close>.\<close>

theorem name_setter_frame_witness:
  "name_getter (name_setter (PyStr ''pv1'') hostPath_pv) = PyStr ''pv1''
   \<and> meta_labels (pv_metadata (pv_model (name_setter (PyStr ''pv1'') hostPath_pv))) ''name'' = Some (PyStr ''pv1'')
   \<and> meta_name (pv_metadata (pv_model hostPath_pv)) = PyStr ''pv0''
   \<and> meta_labels (pv_metadata (pv_model hostPath_pv)) ''name'' = Some (PyStr ''pv0'')
   \<and> pv_spec (pv_model (name_setter (PyStr ''pv1'') hostPath_pv)) = pv_spec (pv_model hostPath_pv)"
  using name_setter_frame [of "PyStr ''pv1''" hostPath_pv]
  by (simp add: hostPath_pv_def)

section \<open>The variant accessors\<close>

lemma accessor_get_read: "accessor_get a s = read_attr (accessor_field a) s"
  by (cases a) (simp_all add: host_path_getter_def volume_id_getter_def pd_name_getter_def
      fs_type_getter_def nfs_server_getter_def nfs_path_getter_def)

lemma accessor_set_write: "accessor_set a v s = write_attr (accessor_field a) v s"
  by (cases a) (simp_all add: host_path_setter_def volume_id_setter_def pd_name_setter_def
      fs_type_setter_def nfs_server_setter_def nfs_path_setter_def)

text \<open>
  Claim C5. Take a controller whose active type is a string \<open>t\<close>, as every constructed
  one has it, and any of the six accessors. When the slot of \<open>t\<close> holds a source
  object that has the accessor's attribute, the getter returns the value of that
  attribute and the setter stores the new value in that attribute of the object
  in the slot, changing nothing else. When the slot is empty or its object lacks
  the attribute, getter and setter raise \<^verbatim>\<open>NotImplementedError\<close> (the kind
  \<open>UnsupportedForVariant\<close>) and the controller is unchanged.
\<close>

theorem accessor_variant_check:
  assumes "pv_type s = PyStr t"
  shows "(\<forall>obj x. spec_slots (pv_spec (pv_model s)) t = Some obj \<and> obj (accessor_field a) = Some x \<longrightarrow>
            accessor_get a s = Inr x
          \<and> accessor_set a v s =
              (Inr (), s\<lparr> pv_model := (pv_model s)\<lparr> pv_spec := (pv_spec (pv_model s))
                 \<lparr> spec_slots := (spec_slots (pv_spec (pv_model s)))
                      (t \<mapsto> obj(accessor_field a \<mapsto> v)) \<rparr> \<rparr> \<rparr>))
       \<and> ((spec_slots (pv_spec (pv_model s)) t = None
            \<or> (\<exists>obj. spec_slots (pv_spec (pv_model s)) t = Some obj \<and> obj (accessor_field a) = None)) \<longrightarrow>
            accessor_get a s = Inl NotImplementedError
          \<and> accessor_set a v s = (Inl NotImplementedError, s))"
  using assms
  by (auto simp: accessor_get_read accessor_set_write read_attr_def write_attr_def source_getter_def)

text \<open>
  The statement at the controller constructed with \<^verbatim>\<open>hostPath\<close>: \<^verbatim>\<open>volume_id\<close> is
  refused, \<^verbatim>\<open>host_path\<close> is read, written and read back.
\<close>

theorem accessor_variant_check_witness:
  "pv_type hostPath_pv = PyStr ''hostPath''
   \<and> accessor_get Volume_id hostPath_pv = Inl NotImplementedError
   \<and> accessor_set Volume_id (PyStr ''vol-1'') hostPath_pv = (Inl NotImplementedError, hostPath_pv)
   \<and> accessor_get Host_path hostPath_pv = Inr PyNone
   \<and> fst (accessor_set Host_path (PyStr ''/data'') hostPath_pv) = Inr ()
   \<and> accessor_get Host_path (snd (accessor_set Host_path (PyStr ''/data'') hostPath_pv)) = Inr (PyStr ''/data'')"
proof -
  have t: "pv_type hostPath_pv = PyStr ''hostPath''" by (simp add: hostPath_pv_def)
  have sl: "spec_slots (pv_spec (pv_model hostPath_pv)) ''hostPath'' = Some [''path'' \<mapsto> PyNone]"
    by (simp add: hostPath_pv_def)
  note a = accessor_variant_check [OF t, of Volume_id "PyStr ''vol-1''"]
  note b = accessor_variant_check [OF t, of Host_path "PyStr ''/data''"]
  have t2: "pv_type (snd (accessor_set Host_path (PyStr ''/data'') hostPath_pv)) = PyStr ''hostPath''"
    using b sl by (simp add: t)
  note c = accessor_variant_check [OF t2, of Host_path PyNone]
  have sl2: "spec_slots (pv_spec (pv_model (snd (accessor_set Host_path (PyStr ''/data'') hostPath_pv)))) ''hostPath''
      = Some [''path'' \<mapsto> PyStr ''/data'']"
    using b sl by simp
  show ?thesis
    using a b c sl sl2 t by simp
qed

section \<open>The readiness polling\<close>

lemma wait_loop_step:
  assumes "status_phase (pv_status (pv_model s)) \<noteq> PyStr ''Available''"
      and "double_sub (clk (Suc i)) start < 60"
  shows "wait_loop (mock_api (\<lambda>i. Inr (docs i))) parse (mock_time clk) start (Suc fuel) s
           \<lparr> mock_gets = i, mock_reads = Suc i \<rparr>
         = wait_loop (mock_api (\<lambda>i. Inr (docs i))) parse (mock_time clk) start fuel
             (s\<lparr> pv_model := parse (docs i) \<rparr>) \<lparr> mock_gets = Suc i, mock_reads = Suc (Suc i) \<rparr>"
  using assms
  by (simp add: pv_get_def mock_api_def mock_time_def READY_WAIT_TIMEOUT_SECONDS_def)

lemma wait_loop_timeout:
  assumes "status_phase (pv_status (pv_model s)) \<noteq> PyStr ''Available''"
      and "double_sub (clk (Suc i)) start \<ge> 60"
  shows "wait_loop (mock_api (\<lambda>i. Inr (docs i))) parse (mock_time clk) start (Suc fuel) s
           \<lparr> mock_gets = i, mock_reads = Suc i \<rparr>
         = Some (Inl (TimedOutException (timed_out_msg (meta_name (pv_metadata (parse (docs i)))))),
                 s\<lparr> pv_model := parse (docs i) \<rparr>,
                 \<lparr> mock_gets = Suc i, mock_reads = Suc (Suc i) \<rparr>)"
  using assms
  by (simp add: pv_get_def mock_api_def mock_time_def READY_WAIT_TIMEOUT_SECONDS_def name_getter_def)

text \<open>
  A model that is \<^verbatim>\<open>Available\<close> when the loop condition is tested ends the loop
  without a poll, on any server and with any clock.
\<close>

lemma wait_loop_available:
  assumes "status_phase (pv_status (pv_model s)) = PyStr ''Available''"
  shows "wait_loop api parse tm start (Suc fuel) s w = Some (Inr (), s, w)"
  using assms by simp

text \<open>
  \<open>n\<close> polls that all fetch a phase other than \<^verbatim>\<open>Available\<close>, each before the timeout,
  take \<open>n\<close> units of fuel and leave the loop running on the document fetched last.
\<close>

lemma wait_loop_pending:
  assumes "status_phase (pv_status (pv_model s)) \<noteq> PyStr ''Available''"
      and "\<forall>j<n. status_phase (pv_status (parse (docs (i + j)))) \<noteq> PyStr ''Available''"
      and "\<forall>j<n. double_sub (clk (Suc (i + j))) start < 60"
  shows "wait_loop (mock_api (\<lambda>i. Inr (docs i))) parse (mock_time clk) start (n + fuel) s
           \<lparr> mock_gets = i, mock_reads = Suc i \<rparr>
         = wait_loop (mock_api (\<lambda>i. Inr (docs i))) parse (mock_time clk) start fuel
             (if n = 0 then s else s\<lparr> pv_model := parse (docs (i + n - 1)) \<rparr>)
             \<lparr> mock_gets = i + n, mock_reads = Suc (i + n) \<rparr>"
  using assms
proof (induction n arbitrary: s i)
  case 0
  then show ?case by simp
next
  case (Suc n)
  have c0: "double_sub (clk (Suc i)) start < 60" using Suc.prems(3) by (metis add.right_neutral zero_less_Suc)
  have p0: "status_phase (pv_status (parse (docs i))) \<noteq> PyStr ''Available''"
    using Suc.prems(2) by (metis add.right_neutral zero_less_Suc)
  let ?s1 = "s\<lparr> pv_model := parse (docs i) \<rparr>"
  have p1: "status_phase (pv_status (pv_model ?s1)) \<noteq> PyStr ''Available''" using p0 by simp
  have a: "\<forall>j<n. status_phase (pv_status (parse (docs (Suc i + j)))) \<noteq> PyStr ''Available''"
    using Suc.prems(2) by (metis Suc_less_eq add_Suc_right add_Suc)
  have b: "\<forall>j<n. double_sub (clk (Suc (Suc i + j))) start < 60"
    using Suc.prems(3) by (metis Suc_less_eq add_Suc_right add_Suc)
  have "wait_loop (mock_api (\<lambda>i. Inr (docs i))) parse (mock_time clk) start (Suc n + fuel) s
           \<lparr> mock_gets = i, mock_reads = Suc i \<rparr>
      = wait_loop (mock_api (\<lambda>i. Inr (docs i))) parse (mock_time clk) start (n + fuel) ?s1
           \<lparr> mock_gets = Suc i, mock_reads = Suc (Suc i) \<rparr>"
    using wait_loop_step [where s=s and clk=clk and i=i and start=start and docs=docs
        and parse=parse and fuel="n + fuel"] Suc.prems(1) c0 by simp
  also have "\<dots> = wait_loop (mock_api (\<lambda>i. Inr (docs i))) parse (mock_time clk) start fuel
             (if n = 0 then ?s1 else ?s1\<lparr> pv_model := parse (docs (Suc i + n - 1)) \<rparr>)
             \<lparr> mock_gets = Suc i + n, mock_reads = Suc (Suc i + n) \<rparr>"
    using Suc.IH [where s="?s1" and i="Suc i"] p1 a b by blast
  finally show ?case by (cases n) simp_all
qed

lemma wait_loop_starved:
  assumes "status_phase (pv_status (pv_model s)) \<noteq> PyStr ''Available''"
      and "\<forall>j<n. status_phase (pv_status (parse (docs (i + j)))) \<noteq> PyStr ''Available''"
      and "\<forall>j<n. double_sub (clk (Suc (i + j))) start < 60"
      and "fuel \<le> n"
  shows "wait_loop (mock_api (\<lambda>i. Inr (docs i))) parse (mock_time clk) start fuel s
           \<lparr> mock_gets = i, mock_reads = Suc i \<rparr> = None"
proof -
  have a: "\<forall>j<fuel. status_phase (pv_status (parse (docs (i + j)))) \<noteq> PyStr ''Available''"
    using assms(2,4) by simp
  have b: "\<forall>j<fuel. double_sub (clk (Suc (i + j))) start < 60"
    using assms(3,4) by simp
  from wait_loop_pending [where s=s and n=fuel and i=i and clk=clk and start=start
      and docs=docs and parse=parse and fuel=0] assms(1) a b
  show ?thesis by simp
qed

lemma after_polls_pending:
  assumes "status_phase (pv_status (pv_model s)) \<noteq> PyStr ''Available''"
      and "\<forall>j<n. status_phase (pv_status (parse (docs j))) \<noteq> PyStr ''Available''"
  shows "status_phase (pv_status (pv_model
           (if n = 0 then s else s\<lparr> pv_model := parse (docs (n - (1::nat))) \<rparr>))) \<noteq> PyStr ''Available''"
proof (cases n)
  case 0
  with assms(1) show ?thesis by simp
next
  case (Suc m)
  with assms(2) show ?thesis by simp
qed

lemma overwrite_model:
  "(if n = 0 then s else s\<lparr> pv_model := m \<rparr>)\<lparr> pv_model := m' \<rparr> = s\<lparr> pv_model := m' \<rparr>"
  by simp

text \<open>
  Claim C1, as the code has it. The server answers every \<^verbatim>\<open>get()\<close> with a document
  whose phase is not \<^verbatim>\<open>Available\<close>, and the model of the controller is not
  \<^verbatim>\<open>Available\<close> when the loop starts. The elapsed time is what the loop computes:
  the double difference of the reading of the clock after a poll and the reading
  at the start. If poll \<open>k + 1\<close> is the first after which the elapsed time is at
  least 60, the loop is still running after \<open>k\<close> polls and raises
  \<^verbatim>\<open>TimedOutException\<close> at poll \<open>k + 1\<close>, with a message that carries the name of the
  model just fetched. If the elapsed time stays below 60 at every poll, the loop
  never raises and never returns.
\<close>

theorem wait_for_available_times_out:
  assumes never: "\<forall>i. status_phase (pv_status (parse (docs i))) \<noteq> PyStr ''Available''"
      and pending: "status_phase (pv_status (pv_model s)) \<noteq> PyStr ''Available''"
  shows "(double_sub (clk (Suc k)) (clk 0) \<ge> 60 \<and> (\<forall>j<k. double_sub (clk (Suc j)) (clk 0) < 60) \<longrightarrow>
            wait_for_available (mock_api (\<lambda>i. Inr (docs i))) parse (mock_time clk) fuel s
                      \<lparr> mock_gets = 0, mock_reads = 0 \<rparr>
               = (if fuel \<le> k then None
                  else Some (Inl (TimedOutException
                               (''Timed out waiting on readiness of PersistentVolume: [ ''
                                  @ py_format (meta_name (pv_metadata (parse (docs k)))) @ '' ]'')),
                             s\<lparr> pv_model := parse (docs k) \<rparr>,
                             \<lparr> mock_gets = Suc k, mock_reads = Suc (Suc k) \<rparr>)))
       \<and> ((\<forall>j. double_sub (clk (Suc j)) (clk 0) < 60) \<longrightarrow>
            wait_for_available (mock_api (\<lambda>i. Inr (docs i))) parse (mock_time clk) fuel s
                      \<lparr> mock_gets = 0, mock_reads = 0 \<rparr> = None)"
proof (intro conjI impI)
  assume h: "double_sub (clk (Suc k)) (clk 0) \<ge> 60 \<and> (\<forall>j<k. double_sub (clk (Suc j)) (clk 0) < 60)"
  let ?api = "mock_api (\<lambda>i. Inr (docs i))"
  let ?w = "\<lparr> mock_gets = 0, mock_reads = Suc 0 \<rparr>"
  have unf: "wait_for_available ?api parse (mock_time clk) f s \<lparr> mock_gets = 0, mock_reads = 0 \<rparr>
           = wait_loop ?api parse (mock_time clk) (clk 0) f s ?w" for f
    by (simp add: wait_for_available_def mock_time_def)
  have a: "\<forall>j<k. status_phase (pv_status (parse (docs (0 + j)))) \<noteq> PyStr ''Available''"
    using never by simp
  have b: "\<forall>j<k. double_sub (clk (Suc (0 + j))) (clk 0) < 60" using h by simp
  show "wait_for_available ?api parse (mock_time clk) fuel s \<lparr> mock_gets = 0, mock_reads = 0 \<rparr>
        = (if fuel \<le> k then None
           else Some (Inl (TimedOutException
                        (''Timed out waiting on readiness of PersistentVolume: [ ''
                           @ py_format (meta_name (pv_metadata (parse (docs k)))) @ '' ]'')),
                      s\<lparr> pv_model := parse (docs k) \<rparr>,
                      \<lparr> mock_gets = Suc k, mock_reads = Suc (Suc k) \<rparr>))"
  proof (cases "fuel \<le> k")
    case True
    from wait_loop_starved [where s=s and n=k and i=0 and clk=clk and start="clk 0"
        and docs=docs and parse=parse and fuel=fuel] pending a b True
    show ?thesis by (simp add: unf)
  next
    case False
    then obtain f where f: "fuel = k + Suc f"
      by (metis add_Suc_right less_imp_Suc_add not_le)
    let ?sk = "if k = 0 then s else s\<lparr> pv_model := parse (docs (k - 1)) \<rparr>"
    have pk: "status_phase (pv_status (pv_model ?sk)) \<noteq> PyStr ''Available''"
      using after_polls_pending [where s=s and n=k and parse=parse and docs=docs] pending never
      by blast
    have "wait_loop ?api parse (mock_time clk) (clk 0) fuel s ?w
        = wait_loop ?api parse (mock_time clk) (clk 0) (Suc f) ?sk
            \<lparr> mock_gets = k, mock_reads = Suc k \<rparr>"
      using wait_loop_pending [where s=s and n=k and i=0 and clk=clk and start="clk 0"
          and docs=docs and parse=parse and fuel="Suc f"] pending a b
      by (simp add: f)
    also have "\<dots> = Some (Inl (TimedOutException (timed_out_msg (meta_name (pv_metadata (parse (docs k)))))),
                 ?sk\<lparr> pv_model := parse (docs k) \<rparr>,
                 \<lparr> mock_gets = Suc k, mock_reads = Suc (Suc k) \<rparr>)"
      using wait_loop_timeout [where s="?sk" and clk=clk and i=k and start="clk 0"
          and docs=docs and parse=parse and fuel=f] pk h
      by blast
    finally show ?thesis
      using False by (simp add: unf timed_out_msg_def overwrite_model)
  qed
next
  assume h: "\<forall>j. double_sub (clk (Suc j)) (clk 0) < 60"
  have a: "\<forall>j<fuel. status_phase (pv_status (parse (docs (0 + j)))) \<noteq> PyStr ''Available''"
    using never by simp
  have b: "\<forall>j<fuel. double_sub (clk (Suc (0 + j))) (clk 0) < 60" using h by simp
  from wait_loop_starved [where s=s and n=fuel and i=0 and clk=clk and start="clk 0"
      and docs=docs and parse=parse and fuel=fuel] pending a b
  show "wait_for_available (mock_api (\<lambda>i. Inr (docs i))) parse (mock_time clk) fuel s
          \<lparr> mock_gets = 0, mock_reads = 0 \<rparr> = None"
    by (simp add: wait_for_available_def mock_time_def)
qed

text \<open>
  The rounding at known values: \<open>0.1\<close> and \<open>1/3\<close> round to their binary64 values.
\<close>

lemma double_round_values:
  "double_round (1 / 10) = 3602879701896397 / 2 ^ 55"
  "double_round (1 / 3) = 6004799503160661 / 2 ^ 54"
  by code_simp+

text \<open>The double differences of the readings of the scripted clocks.\<close>

lemma double_sub_values:
  "double_sub 1 0 = 1" "double_sub 2 0 = 2" "double_sub 3 0 = 3"
  "double_sub 30 0 = 30" "double_sub 60 0 = 60" "double_sub 100 0 = 100"
  "double_sub 7 7 = 0" "double_sub 64 (4 + 1 / 2 ^ 50) = 60"
  by code_simp+

lemma scripted_servers:
  "always_pending = (\<lambda>i. Inr (server_doc (PyStr ''Pending'')))"
  "always_available = (\<lambda>i. Inr (server_doc (PyStr ''Available'')))"
  "pending_twice
     = (\<lambda>i. Inr (if i < 2 then server_doc (PyStr ''Pending'') else server_doc (PyStr ''Available'')))"
  by (simp_all add: fun_eq_iff always_pending_def always_available_def pending_twice_def)

lemma server_doc_facts:
  "status_phase (pv_status (server_doc ph)) = ph"
  "meta_name (pv_metadata (server_doc ph)) = PyStr ''pv0''"
  "status_phase (pv_status (pv_model hostPath_pv)) = PyNone"
  by (simp_all add: server_doc_def hostPath_pv_def)

text \<open>
  The statement with the clock whose readings are thirty seconds apart, so that the
  elapsed time is exactly 60 after the second poll, and with the clock that stands
  still.
\<close>

theorem wait_for_available_times_out_witness:
  "status_phase (pv_status (pv_model hostPath_pv)) \<noteq> PyStr ''Available''
   \<and> double_sub (clock_30 1) (clock_30 0) < 60
   \<and> double_sub (clock_30 2) (clock_30 0) \<ge> 60
   \<and> wait_for_available (mock_api always_pending) id (mock_time clock_30) 5 hostPath_pv
        \<lparr> mock_gets = 0, mock_reads = 0 \<rparr>
      = Some (Inl (TimedOutException ''Timed out waiting on readiness of PersistentVolume: [ pv0 ]''),
              hostPath_pv\<lparr> pv_model := server_doc (PyStr ''Pending'') \<rparr>,
              \<lparr> mock_gets = 2, mock_reads = 3 \<rparr>)
   \<and> wait_for_available (mock_api always_pending) id (mock_time clock_30) 1 hostPath_pv
        \<lparr> mock_gets = 0, mock_reads = 0 \<rparr> = None
   \<and> wait_for_available (mock_api always_pending) id (mock_time clock_still) 9 hostPath_pv
        \<lparr> mock_gets = 0, mock_reads = 0 \<rparr> = None"
proof -
  have p: "status_phase (pv_status (pv_model hostPath_pv)) \<noteq> PyStr ''Available''"
    by (simp add: server_doc_facts)
  have n: "\<forall>i::nat. status_phase (pv_status (id ((\<lambda>i. server_doc (PyStr ''Pending'')) i)))
             \<noteq> PyStr ''Available''"
    by (simp add: server_doc_facts)
  have e1: "double_sub (clock_30 1) (clock_30 0) < 60"
    and e2: "double_sub (clock_30 2) (clock_30 0) \<ge> 60"
    by (simp_all add: clock_30_def double_sub_values)
  have c: "double_sub (clock_30 (Suc 1)) (clock_30 0) \<ge> 60
         \<and> (\<forall>j<1. double_sub (clock_30 (Suc j)) (clock_30 0) < 60)"
    by (simp add: clock_30_def double_sub_values)
  have d: "\<forall>j. double_sub (clock_still (Suc j)) (clock_still 0) < 60"
    by (simp add: clock_still_def double_sub_values)
  have two: "Suc 1 = 2" and three: "Suc (Suc 1) = 3" by simp_all
  note t = wait_for_available_times_out [where parse=id and docs="\<lambda>i. server_doc (PyStr ''Pending'')"
      and s=hostPath_pv, OF n p]
  note a5 = t [where clk=clock_30 and k=1 and fuel=5, THEN conjunct1, THEN mp, OF c]
  note a1 = t [where clk=clock_30 and k=1 and fuel=1, THEN conjunct1, THEN mp, OF c]
  note b9 = t [where clk=clock_still and fuel=9, THEN conjunct2, THEN mp, OF d]
  show ?thesis
    using a5 a1 b9 p e1 e2 by (simp add: server_doc_facts scripted_servers two three)
qed

text \<open>
  The claim as it is written fails on two runs against the server that never
  reports \<^verbatim>\<open>Available\<close>. A controller that is \<^verbatim>\<open>Available\<close> from an earlier \<^verbatim>\<open>get()\<close>
  passes the first test of the loop condition: the loop returns without a poll
  and without an error, although the elapsed time at the first reading would be
  100. And with the clock that reads \<open>4 + 2^-50\<close> and then \<open>64\<close> the loop raises at
  the first poll, although the exact difference of the two readings is below 60.
\<close>

theorem timeout_counterexample:
  "pv_get (mock_api always_available) id hostPath_pv \<lparr> mock_gets = 0, mock_reads = 0 \<rparr>
      = (Inr (), fetched_pv, \<lparr> mock_gets = 1, mock_reads = 0 \<rparr>)
   \<and> stale_pv = name_setter (PyStr ''pv1'') fetched_pv
   \<and> status_phase (pv_status (pv_model stale_pv)) = PyStr ''Available''
   \<and> double_sub (clock_100 1) (clock_100 0) \<ge> 60
   \<and> wait_for_available (mock_api always_pending) id (mock_time clock_100) 3 stale_pv
        \<lparr> mock_gets = 0, mock_reads = 0 \<rparr>
      = Some (Inr (), stale_pv, \<lparr> mock_gets = 0, mock_reads = 1 \<rparr>)
   \<and> status_phase (pv_status (pv_model hostPath_pv)) \<noteq> PyStr ''Available''
   \<and> clock_rounding 1 - clock_rounding 0 < 60
   \<and> wait_for_available (mock_api always_pending) id (mock_time clock_rounding) 3 hostPath_pv
        \<lparr> mock_gets = 0, mock_reads = 0 \<rparr>
      = Some (Inl (TimedOutException ''Timed out waiting on readiness of PersistentVolume: [ pv0 ]''),
              hostPath_pv\<lparr> pv_model := server_doc (PyStr ''Pending'') \<rparr>,
              \<lparr> mock_gets = 1, mock_reads = 2 \<rparr>)"
proof -
  have g: "pv_get (mock_api always_available) id hostPath_pv \<lparr> mock_gets = 0, mock_reads = 0 \<rparr>
      = (Inr (), fetched_pv, \<lparr> mock_gets = 1, mock_reads = 0 \<rparr>)"
    by (simp add: pv_get_def mock_api_def always_available_def fetched_pv_def)
  have st: "status_phase (pv_status (pv_model stale_pv)) = PyStr ''Available''"
    by (simp add: stale_pv_def fetched_pv_def name_setter_def Let_def server_doc_facts)
  have e: "double_sub (clock_100 1) (clock_100 0) \<ge> 60"
    by (simp add: clock_100_def double_sub_values)
  have three: "(3::nat) = Suc (Suc (Suc 0))" by simp
  have r1: "wait_for_available (mock_api always_pending) id (mock_time clock_100) 3 stale_pv
        \<lparr> mock_gets = 0, mock_reads = 0 \<rparr>
      = Some (Inr (), stale_pv, \<lparr> mock_gets = 0, mock_reads = 1 \<rparr>)"
    by (simp add: wait_for_available_def mock_time_def three st)
  have p: "status_phase (pv_status (pv_model hostPath_pv)) \<noteq> PyStr ''Available''"
    by (simp add: server_doc_facts)
  have x: "clock_rounding 1 - clock_rounding 0 < 60"
    by (simp add: clock_rounding_def)
  have y: "double_sub (clock_rounding (Suc 0)) (clock_rounding 0) \<ge> 60"
    by code_simp
  have r2: "wait_for_available (mock_api always_pending) id (mock_time clock_rounding) 3 hostPath_pv
        \<lparr> mock_gets = 0, mock_reads = 0 \<rparr>
      = Some (Inl (TimedOutException ''Timed out waiting on readiness of PersistentVolume: [ pv0 ]''),
              hostPath_pv\<lparr> pv_model := server_doc (PyStr ''Pending'') \<rparr>,
              \<lparr> mock_gets = 1, mock_reads = 2 \<rparr>)"
    using p y
    by (simp add: wait_for_available_def mock_time_def three pv_get_def mock_api_def
        always_pending_def READY_WAIT_TIMEOUT_SECONDS_def name_getter_def timed_out_msg_def
        server_doc_facts)
  show ?thesis
    using g st e r1 p x r2 by (simp add: stale_pv_def)
qed

text \<open>
  Claim C2, as the code has it. The server answers the first \<open>N\<close> calls of \<^verbatim>\<open>get()\<close>
  with a phase other than \<^verbatim>\<open>Available\<close> (\<^verbatim>\<open>Pending\<close>, say) and call \<open>N + 1\<close> with
  \<^verbatim>\<open>Available\<close>, the elapsed time that the loop computes, the double difference of
  the readings, is below 60 after each of these polls, and the model of the
  controller is not \<^verbatim>\<open>Available\<close> when the loop starts. Then the loop is still
  running after \<open>N\<close> polls and returns without an error after exactly \<open>N + 1\<close> polls,
  with the document fetched last as the model; \<^verbatim>\<open>create()\<close> on this server is the
  loop.
\<close>

theorem wait_for_available_returns:
  assumes first: "\<forall>i<N. status_phase (pv_status (parse (docs i))) \<noteq> PyStr ''Available''"
      and then_available: "status_phase (pv_status (parse (docs N))) = PyStr ''Available''"
      and in_time: "\<forall>j\<le>N. double_sub (clk (Suc j)) (clk 0) < 60"
      and pending: "status_phase (pv_status (pv_model s)) \<noteq> PyStr ''Available''"
  shows "wait_for_available (mock_api (\<lambda>i. Inr (docs i))) parse (mock_time clk) fuel s
           \<lparr> mock_gets = 0, mock_reads = 0 \<rparr>
         = (if fuel \<le> Suc N then None
            else Some (Inr (), s\<lparr> pv_model := parse (docs N) \<rparr>,
                       \<lparr> mock_gets = Suc N, mock_reads = Suc (Suc N) \<rparr>))
       \<and> pv_create (mock_api (\<lambda>i. Inr (docs i))) parse (mock_time clk) fuel s
           \<lparr> mock_gets = 0, mock_reads = 0 \<rparr>
         = wait_for_available (mock_api (\<lambda>i. Inr (docs i))) parse (mock_time clk) fuel s
             \<lparr> mock_gets = 0, mock_reads = 0 \<rparr>"
proof
  let ?api = "mock_api (\<lambda>i. Inr (docs i))"
  let ?w = "\<lparr> mock_gets = 0, mock_reads = Suc 0 \<rparr>"
  let ?sN = "if N = 0 then s else s\<lparr> pv_model := parse (docs (N - 1)) \<rparr>"
  have unf: "wait_for_available ?api parse (mock_time clk) f s \<lparr> mock_gets = 0, mock_reads = 0 \<rparr>
           = wait_loop ?api parse (mock_time clk) (clk 0) f s ?w" for f
    by (simp add: wait_for_available_def mock_time_def)
  have a: "\<forall>j<N. status_phase (pv_status (parse (docs (0 + j)))) \<noteq> PyStr ''Available''"
    using first by simp
  have b: "\<forall>j<N. double_sub (clk (Suc (0 + j))) (clk 0) < 60" using in_time by simp
  have cN: "double_sub (clk (Suc N)) (clk 0) < 60" using in_time by simp
  have pN: "status_phase (pv_status (pv_model ?sN)) \<noteq> PyStr ''Available''"
    using after_polls_pending [where s=s and n=N and parse=parse and docs=docs] pending first
    by blast
  have run: "wait_loop ?api parse (mock_time clk) (clk 0) (N + Suc g) s ?w
      = wait_loop ?api parse (mock_time clk) (clk 0) g (s\<lparr> pv_model := parse (docs N) \<rparr>)
          \<lparr> mock_gets = Suc N, mock_reads = Suc (Suc N) \<rparr>" for g
  proof -
    have "wait_loop ?api parse (mock_time clk) (clk 0) (N + Suc g) s ?w
        = wait_loop ?api parse (mock_time clk) (clk 0) (Suc g) ?sN
            \<lparr> mock_gets = N, mock_reads = Suc N \<rparr>"
      using wait_loop_pending [where s=s and n=N and i=0 and clk=clk and start="clk 0"
          and docs=docs and parse=parse and fuel="Suc g"] pending a b
      by simp
    also have "\<dots> = wait_loop ?api parse (mock_time clk) (clk 0) g (?sN\<lparr> pv_model := parse (docs N) \<rparr>)
            \<lparr> mock_gets = Suc N, mock_reads = Suc (Suc N) \<rparr>"
      using wait_loop_step [where s="?sN" and clk=clk and i=N and start="clk 0" and docs=docs
          and parse=parse and fuel=g] pN cN
      by blast
    finally show ?thesis by (simp add: overwrite_model)
  qed
  show "wait_for_available ?api parse (mock_time clk) fuel s \<lparr> mock_gets = 0, mock_reads = 0 \<rparr>
         = (if fuel \<le> Suc N then None
            else Some (Inr (), s\<lparr> pv_model := parse (docs N) \<rparr>,
                       \<lparr> mock_gets = Suc N, mock_reads = Suc (Suc N) \<rparr>))"
  proof (cases "fuel \<le> N")
    case True
    from wait_loop_starved [where s=s and n=N and i=0 and clk=clk and start="clk 0"
        and docs=docs and parse=parse and fuel=fuel] pending a b True
    show ?thesis by (simp add: unf)
  next
    case False
    then obtain g where g: "fuel = N + Suc g"
      by (metis add_Suc_right less_imp_Suc_add not_le)
    show ?thesis
    proof (cases g)
      case 0
      then show ?thesis using run [of 0] g by (simp add: unf del: wait_loop.simps(2))
    next
      case (Suc g')
      have "wait_loop ?api parse (mock_time clk) (clk 0) (Suc g') (s\<lparr> pv_model := parse (docs N) \<rparr>)
              \<lparr> mock_gets = Suc N, mock_reads = Suc (Suc N) \<rparr>
            = Some (Inr (), s\<lparr> pv_model := parse (docs N) \<rparr>,
                    \<lparr> mock_gets = Suc N, mock_reads = Suc (Suc N) \<rparr>)"
        using then_available by simp
      then show ?thesis using run [of "Suc g'"] g Suc by (simp add: unf del: wait_loop.simps(2))
    qed
  qed
next
  show "pv_create (mock_api (\<lambda>i. Inr (docs i))) parse (mock_time clk) fuel s
           \<lparr> mock_gets = 0, mock_reads = 0 \<rparr>
         = wait_for_available (mock_api (\<lambda>i. Inr (docs i))) parse (mock_time clk) fuel s
             \<lparr> mock_gets = 0, mock_reads = 0 \<rparr>"
    by (simp add: pv_create_def mock_api_def)
qed

text \<open>
  The statement with the server that answers \<^verbatim>\<open>Pending\<close> twice and the clock whose
  readings are one second apart.
\<close>

theorem wait_for_available_returns_witness:
  "status_phase (pv_status (pv_model hostPath_pv)) \<noteq> PyStr ''Available''
   \<and> double_sub (clock_1 1) (clock_1 0) < 60
   \<and> double_sub (clock_1 2) (clock_1 0) < 60
   \<and> double_sub (clock_1 3) (clock_1 0) < 60
   \<and> wait_for_available (mock_api pending_twice) id (mock_time clock_1) 4 hostPath_pv
        \<lparr> mock_gets = 0, mock_reads = 0 \<rparr>
      = Some (Inr (), hostPath_pv\<lparr> pv_model := server_doc (PyStr ''Available'') \<rparr>,
              \<lparr> mock_gets = 3, mock_reads = 4 \<rparr>)
   \<and> pv_create (mock_api pending_twice) id (mock_time clock_1) 4 hostPath_pv
        \<lparr> mock_gets = 0, mock_reads = 0 \<rparr>
      = Some (Inr (), hostPath_pv\<lparr> pv_model := server_doc (PyStr ''Available'') \<rparr>,
              \<lparr> mock_gets = 3, mock_reads = 4 \<rparr>)"
proof -
  let ?docs = "\<lambda>i::nat. if i < 2 then server_doc (PyStr ''Pending'') else server_doc (PyStr ''Available'')"
  have p: "status_phase (pv_status (pv_model hostPath_pv)) \<noteq> PyStr ''Available''"
    by (simp add: server_doc_facts)
  have f: "\<forall>i<2. status_phase (pv_status (id (?docs i))) \<noteq> PyStr ''Available''"
    by (simp add: server_doc_facts)
  have a: "status_phase (pv_status (id (?docs 2))) = PyStr ''Available''"
    by (simp add: server_doc_facts)
  have e: "double_sub (clock_1 1) (clock_1 0) < 60" "double_sub (clock_1 2) (clock_1 0) < 60"
    "double_sub (clock_1 3) (clock_1 0) < 60"
    by (simp_all add: clock_1_def double_sub_values)
  have c: "\<forall>j\<le>2. double_sub (clock_1 (Suc j)) (clock_1 0) < 60"
  proof (intro allI impI)
    fix j :: nat assume "j \<le> 2"
    then consider "j = 0" | "j = 1" | "j = 2" by linarith
    then show "double_sub (clock_1 (Suc j)) (clock_1 0) < 60"
      by cases (simp_all add: clock_1_def double_sub_values)
  qed
  have n: "Suc 2 = 3" "Suc (Suc 2) = 4" by simp_all
  from wait_for_available_returns [where parse=id and docs="?docs" and N=2
      and clk=clock_1 and s=hostPath_pv and fuel=4, OF f a c p] p e
  show ?thesis by (simp add: n scripted_servers)
qed

text \<open>
  The claim as it is written fails on two runs. Against the server that answers
  \<^verbatim>\<open>Pending\<close> twice, a controller that is \<^verbatim>\<open>Available\<close> from an earlier \<^verbatim>\<open>get()\<close> makes
  the loop, and \<^verbatim>\<open>create()\<close>, return after no poll, not after three. And against the
  server that answers \<^verbatim>\<open>Available\<close> at once, with the clock that reads \<open>4 + 2^-50\<close> and
  then \<open>64\<close>, the loop raises after the first poll instead of returning, although
  the exact difference of the two readings is below 60.
\<close>

theorem returns_counterexample:
  "status_phase (pv_status (pv_model stale_pv)) = PyStr ''Available''
   \<and> wait_for_available (mock_api pending_twice) id (mock_time clock_1) 5 stale_pv
        \<lparr> mock_gets = 0, mock_reads = 0 \<rparr>
      = Some (Inr (), stale_pv, \<lparr> mock_gets = 0, mock_reads = 1 \<rparr>)
   \<and> pv_create (mock_api pending_twice) id (mock_time clock_1) 5 stale_pv
        \<lparr> mock_gets = 0, mock_reads = 0 \<rparr>
      = Some (Inr (), stale_pv, \<lparr> mock_gets = 0, mock_reads = 1 \<rparr>)
   \<and> status_phase (pv_status (pv_model hostPath_pv)) \<noteq> PyStr ''Available''
   \<and> clock_rounding 1 - clock_rounding 0 < 60
   \<and> wait_for_available (mock_api always_available) id (mock_time clock_rounding) 5 hostPath_pv
        \<lparr> mock_gets = 0, mock_reads = 0 \<rparr>
      = Some (Inl (TimedOutException ''Timed out waiting on readiness of PersistentVolume: [ pv0 ]''),
              hostPath_pv\<lparr> pv_model := server_doc (PyStr ''Available'') \<rparr>,
              \<lparr> mock_gets = 1, mock_reads = 2 \<rparr>)"
proof -
  have st: "status_phase (pv_status (pv_model stale_pv)) = PyStr ''Available''"
    by (simp add: stale_pv_def fetched_pv_def name_setter_def Let_def server_doc_facts)
  have five: "(5::nat) = Suc (Suc (Suc (Suc (Suc 0))))" by simp
  have r1: "wait_for_available (mock_api pending_twice) id (mock_time clock_1) 5 stale_pv
        \<lparr> mock_gets = 0, mock_reads = 0 \<rparr>
      = Some (Inr (), stale_pv, \<lparr> mock_gets = 0, mock_reads = 1 \<rparr>)"
    by (simp add: wait_for_available_def mock_time_def five st)
  have r1c: "pv_create (mock_api pending_twice) id (mock_time clock_1) 5 stale_pv
        \<lparr> mock_gets = 0, mock_reads = 0 \<rparr>
      = Some (Inr (), stale_pv, \<lparr> mock_gets = 0, mock_reads = 1 \<rparr>)"
    using r1 by (simp add: pv_create_def mock_api_def)
  have p: "status_phase (pv_status (pv_model hostPath_pv)) \<noteq> PyStr ''Available''"
    by (simp add: server_doc_facts)
  have x: "clock_rounding 1 - clock_rounding 0 < 60"
    by (simp add: clock_rounding_def)
  have y: "double_sub (clock_rounding (Suc 0)) (clock_rounding 0) \<ge> 60"
    by code_simp
  have r2: "wait_for_available (mock_api always_available) id (mock_time clock_rounding) 5 hostPath_pv
        \<lparr> mock_gets = 0, mock_reads = 0 \<rparr>
      = Some (Inl (TimedOutException ''Timed out waiting on readiness of PersistentVolume: [ pv0 ]''),
              hostPath_pv\<lparr> pv_model := server_doc (PyStr ''Available'') \<rparr>,
              \<lparr> mock_gets = 1, mock_reads = 2 \<rparr>)"
    using p y
    by (simp add: wait_for_available_def mock_time_def five pv_get_def mock_api_def
        always_available_def READY_WAIT_TIMEOUT_SECONDS_def name_getter_def timed_out_msg_def
        server_doc_facts)
  show ?thesis
    using st r1 r1c p x r2 by simp
qed

section \<open>Namespaces\<close>

text \<open>
  Claim C6. \<^verbatim>\<open>get_label(k)\<close> and \<^verbatim>\<open>get_annotation(k)\<close> never raise: for a key of the
  labels (of the annotations) they return the value mapped to it, and for any
  other key, and for \<^verbatim>\<open>None\<close>, they return \<^verbatim>\<open>None\<close>.
\<close>

theorem get_label_annotation_total:
  "(\<forall>key v. meta_labels (ns_metadata (ns_model s)) key = Some v \<longrightarrow> get_label (PyStr key) s = Inr v)
   \<and> (\<forall>key. meta_labels (ns_metadata (ns_model s)) key = None \<longrightarrow> get_label (PyStr key) s = Inr PyNone)
   \<and> get_label PyNone s = Inr PyNone
   \<and> (\<forall>k e. get_label k s \<noteq> Inl e)
   \<and> (\<forall>key v. meta_annotations (ns_metadata (ns_model s)) key = Some v \<longrightarrow>
         get_annotation (PyStr key) s = Inr v)
   \<and> (\<forall>key. meta_annotations (ns_metadata (ns_model s)) key = None \<longrightarrow>
         get_annotation (PyStr key) s = Inr PyNone)
   \<and> get_annotation PyNone s = Inr PyNone
   \<and> (\<forall>k e. get_annotation k s \<noteq> Inl e)"
proof -
  have l: "get_label k s \<noteq> Inl e" for k e
    by (cases k) (auto simp: get_label_def split: option.splits)
  have a: "get_annotation k s \<noteq> Inl e" for k e
    by (cases k) (auto simp: get_annotation_def split: option.splits)
  show ?thesis
    using l a by (simp add: get_label_def get_annotation_def)
qed

text \<open>The statement at a namespace with the single label \<^verbatim>\<open>tier\<close>.\<close>

theorem get_label_annotation_total_witness:
  "get_label (PyStr ''tier'') (K8sNamespace_init () (PyStr ''dev'')\<lparr> ns_model := ns_doc ''dev'' ''backend'' \<rparr>)
     = Inr (PyStr ''backend'')
   \<and> get_label (PyStr ''owner'') (K8sNamespace_init () (PyStr ''dev'')\<lparr> ns_model := ns_doc ''dev'' ''backend'' \<rparr>)
     = Inr PyNone
   \<and> get_annotation (PyStr ''tier'') (K8sNamespace_init () (PyStr ''dev'')\<lparr> ns_model := ns_doc ''dev'' ''backend'' \<rparr>)
     = Inr PyNone"
  using get_label_annotation_total [of "K8sNamespace_init () (PyStr ''dev'')\<lparr> ns_model := ns_doc ''dev'' ''backend'' \<rparr>"]
  by (simp add: ns_doc_def)

lemma filter_first_match:
  assumes "P d" and "\<forall>x\<in>set pre. \<not> P x"
  shows "filter P (pre @ d # post) = d # filter P post"
  using assms by (induction pre) auto

text \<open>
  Claim C7. When the listing of the server succeeds with the documents \<open>docs\<close>,
  \<^verbatim>\<open>get_by_name\<close> returns \<^verbatim>\<open>None\<close> if \<open>docs\<close> is empty or has no document with the given
  name, and otherwise the controller of the first document, in the order of the
  listing, whose name equals the given name: that of the only match when there is
  exactly one, that of the first when there are several.
\<close>

theorem get_by_name_first_match:
  assumes "base_list api (K8sNamespace_init cfg name) w = (Inr docs, w1)"
  shows "(docs = [] \<longrightarrow> get_by_name api parse cfg name w = (Inr None, w1))
       \<and> (\<forall>pre d post. docs = pre @ d # post \<and> meta_name (ns_metadata (parse d)) = name
              \<and> (\<forall>x\<in>set pre. meta_name (ns_metadata (parse x)) \<noteq> name) \<longrightarrow>
            get_by_name api parse cfg name w
              = (Inr (Some ((K8sNamespace_init cfg name)\<lparr> ns_model := parse d \<rparr>)), w1))
       \<and> ((\<forall>x\<in>set docs. meta_name (ns_metadata (parse x)) \<noteq> name) \<longrightarrow>
            get_by_name api parse cfg name w = (Inr None, w1))"
proof -
  let ?wrap = "\<lambda>x. (K8sNamespace_init cfg name)\<lparr> ns_model := parse x \<rparr>"
  have self: "ns_config (K8sNamespace_init cfg name) = cfg"
    "ns_name_getter (K8sNamespace_init cfg name) = name"
    by (simp_all add: K8sNamespace_init_def ns_name_getter_def)
  have lst: "ns_list api parse (K8sNamespace_init cfg name) w = (Inr (map ?wrap docs), w1)"
    using assms by (simp add: ns_list_def self Let_def)
  have nm: "ns_name_getter (?wrap x) = meta_name (ns_metadata (parse x))" for x
    by (simp add: ns_name_getter_def)
  have gbn: "get_by_name api parse cfg name w
      = (case filter (\<lambda>x. ns_name_getter x = name) (map ?wrap docs) of
           [] \<Rightarrow> (Inr None, w1) | x # _ \<Rightarrow> (Inr (Some x), w1))"
    by (simp add: get_by_name_def lst Let_def)
  have none: "get_by_name api parse cfg name w = (Inr None, w1)"
    if "\<forall>x\<in>set docs. meta_name (ns_metadata (parse x)) \<noteq> name"
  proof -
    have "filter (\<lambda>x. ns_name_getter x = name) (map ?wrap docs) = []"
      using that by (auto simp: filter_empty_conv nm)
    then show ?thesis by (simp add: gbn)
  qed
  have first: "get_by_name api parse cfg name w = (Inr (Some (?wrap d)), w1)"
    if "docs = pre @ d # post" "meta_name (ns_metadata (parse d)) = name"
       "\<forall>x\<in>set pre. meta_name (ns_metadata (parse x)) \<noteq> name" for pre d post
  proof -
    have "filter (\<lambda>x. ns_name_getter x = name) (map ?wrap pre @ ?wrap d # map ?wrap post)
        = ?wrap d # filter (\<lambda>x. ns_name_getter x = name) (map ?wrap post)"
      using that(2,3) by (intro filter_first_match) (auto simp: nm)
    then show ?thesis by (simp add: gbn that(1))
  qed
  show ?thesis using none first by auto
qed

text \<open>
  The statement at a listing with two namespaces named \<^verbatim>\<open>dev\<close>, at the empty listing
  and at a listing without a match.
\<close>

theorem get_by_name_first_match_witness:
  "get_by_name (store_api [ns_doc ''prod'' ''a'', ns_doc ''dev'' ''b'', ns_doc ''dev'' ''c'']) (\<lambda>d. d)
      () (PyStr ''dev'') 0
     = (Inr (Some \<lparr> ns_config = (), ns_obj_type = ''Namespace'', ns_model = ns_doc ''dev'' ''b'' \<rparr>), Suc 0)
   \<and> get_by_name (store_api []) (\<lambda>d. d) () (PyStr ''dev'') 0 = (Inr None, Suc 0)
   \<and> get_by_name (store_api [ns_doc ''prod'' ''a'']) (\<lambda>d. d) () (PyStr ''dev'') 0 = (Inr None, Suc 0)"
proof -
  let ?docs = "[ns_doc ''prod'' ''a'', ns_doc ''dev'' ''b'', ns_doc ''dev'' ''c'']"
  have l: "base_list (store_api ds) (K8sNamespace_init () (PyStr ''dev'')) 0 = (Inr ds, Suc 0)" for ds
    by (simp add: store_api_def)
  have sp: "?docs = [ns_doc ''prod'' ''a''] @ ns_doc ''dev'' ''b'' # [ns_doc ''dev'' ''c'']" by simp
  have n1: "meta_name (ns_metadata (ns_doc ''dev'' ''b'')) = PyStr ''dev''"
    and n2: "meta_name (ns_metadata (ns_doc ''prod'' ''a'')) \<noteq> PyStr ''dev''"
    by (simp_all add: ns_doc_def)
  have r: "(K8sNamespace_init () (PyStr ''dev''))\<lparr> ns_model := ns_doc ''dev'' ''b'' \<rparr>
      = \<lparr> ns_config = (), ns_obj_type = ''Namespace'', ns_model = ns_doc ''dev'' ''b'' \<rparr>"
    by (simp add: K8sNamespace_init_def)
  note g = get_by_name_first_match [OF l [of ?docs], of "\<lambda>d. d", THEN conjunct2, THEN conjunct1,
      rule_format, of "[ns_doc ''prod'' ''a'']" "ns_doc ''dev'' ''b''" "[ns_doc ''dev'' ''c'']"]
  have a: "get_by_name (store_api ?docs) (\<lambda>d. d) () (PyStr ''dev'') 0
     = (Inr (Some \<lparr> ns_config = (), ns_obj_type = ''Namespace'', ns_model = ns_doc ''dev'' ''b'' \<rparr>), Suc 0)"
    using g n1 n2 by (simp add: r)
  from get_by_name_first_match [OF l [of "[]"], of "\<lambda>d. d"]
  have b: "get_by_name (store_api []) (\<lambda>d. d) () (PyStr ''dev'') 0 = (Inr None, Suc 0)" by simp
  from get_by_name_first_match [OF l [of "[ns_doc ''prod'' ''a'']"], of "\<lambda>d. d"] n2
  have c: "get_by_name (store_api [ns_doc ''prod'' ''a'']) (\<lambda>d. d) () (PyStr ''dev'') 0 = (Inr None, Suc 0)"
    by simp
  show ?thesis using a b c by simp
qed

text \<open>
  Claim C8. When the submission of \<^verbatim>\<open>create()\<close> (of \<^verbatim>\<open>update()\<close>) succeeds and the
  \<^verbatim>\<open>get()\<close> that follows fetches the document \<open>d\<close> from the server as the submission
  left it, the call returns the controller with its model replaced by the parse
  of \<open>d\<close>, whole, and with nothing else changed.
\<close>

theorem create_update_refresh:
  "(base_create api s w = (Inr (), w1) \<and> get_model api s w1 = (Inr d, w2) \<longrightarrow>
      ns_create api parse s w = (Inr (), s\<lparr> ns_model := parse d \<rparr>, w2))
   \<and> (base_update api s w = (Inr (), w1) \<and> get_model api s w1 = (Inr d, w2) \<longrightarrow>
      ns_update api parse s w = (Inr (), s\<lparr> ns_model := parse d \<rparr>, w2))"
  by (simp add: ns_create_def ns_update_def ns_get_def)

text \<open>The statement at a server that holds the namespace \<^verbatim>\<open>dev\<close>.\<close>

theorem create_update_refresh_witness:
  "ns_create (store_api [ns_doc ''prod'' ''a'', ns_doc ''dev'' ''b'']) (\<lambda>d. d)
      (K8sNamespace_init () (PyStr ''dev'')) 0
     = (Inr (), \<lparr> ns_config = (), ns_obj_type = ''Namespace'', ns_model = ns_doc ''dev'' ''b'' \<rparr>, 2)
   \<and> ns_update (store_api [ns_doc ''prod'' ''a'', ns_doc ''dev'' ''b'']) (\<lambda>d. d)
      (K8sNamespace_init () (PyStr ''dev'')) 0
     = (Inr (), \<lparr> ns_config = (), ns_obj_type = ''Namespace'', ns_model = ns_doc ''dev'' ''b'' \<rparr>, 2)"
proof -
  let ?api = "store_api [ns_doc ''prod'' ''a'', ns_doc ''dev'' ''b''] :: (unit K8sNamespace, nat, ns_model) K8sObject"
  let ?s = "K8sNamespace_init () (PyStr ''dev'')"
  have c: "base_create ?api ?s 0 = (Inr (), Suc 0)" and u: "base_update ?api ?s 0 = (Inr (), Suc 0)"
    by (simp_all add: store_api_def)
  have g: "get_model ?api ?s (Suc 0) = (Inr (ns_doc ''dev'' ''b''), 2)"
    by (simp add: store_api_def ns_name_getter_def K8sNamespace_init_def ns_doc_def)
  have r: "?s\<lparr> ns_model := ns_doc ''dev'' ''b'' \<rparr>
      = \<lparr> ns_config = (), ns_obj_type = ''Namespace'', ns_model = ns_doc ''dev'' ''b'' \<rparr>"
    by (simp add: K8sNamespace_init_def)
  from create_update_refresh [of ?api ?s 0 "Suc 0" "ns_doc ''dev'' ''b''" 2 "\<lambda>d. d"] c u g r
  show ?thesis by simp
qed

end
